theory Spec2Isabelle
  imports Complex_Main
begin

section \<open>Data model (types.ts)\<close>

text \<open>
  Timestamps: the source keeps instants as ISO-8601 strings and reads them back with
  \<^verbatim>\<open>new Date(s)\<close>. The model keeps the instant the string denotes (milliseconds since
  the epoch) as an \<open>int\<close>; a missing or empty string is \<open>None\<close> where the source tests it
  for truthiness. Accented letters of the French texts are written without accent.
\<close>

datatype PokemonRarity = COMMON | RARE | EPIC | LEGENDARY | MYTHIC

datatype PokemonStatus = OWNED | RESOLD

record Pokemon =
  id_pk :: string
  name_pk :: string
  rarity :: PokemonRarity
  imageBase64 :: string
  generatedAt :: int
  status :: PokemonStatus
  isFavorite :: bool

record Achievement =
  id_ach :: string
  name_ach :: string
  description :: string
  unlocked :: bool
  unlockedAt :: "int option"

record PlayerSettings =
  theme_dark :: bool
  isMuted :: bool
  playerName :: string

datatype MessageType = Success | Error | Warning

section \<open>Remote generator client (services/pokemonApiService.ts)\<close>

datatype console_entry =
    Warn_unknown_rarity string
  | Error_api_response
  | Error_network_or_processing

text \<open>\<^verbatim>\<open>mapApiRarityToEnum\<close>: the returned tier together with what the call writes to the console.\<close>

definition mapApiRarityToEnum :: "string \<Rightarrow> PokemonRarity \<times> console_entry list" where
  "mapApiRarityToEnum apiRarity =
     (if apiRarity = ''F'' \<or> apiRarity = ''E'' then (COMMON, [])
      else if apiRarity = ''D'' \<or> apiRarity = ''C'' then (RARE, [])
      else if apiRarity = ''B'' then (EPIC, [])
      else if apiRarity = ''A'' \<or> apiRarity = ''S'' then (LEGENDARY, [])
      else if apiRarity = ''S+'' then (MYTHIC, [])
      else (COMMON, [Warn_unknown_rarity apiRarity]))"

text \<open>The JSON payload of a response, as far as \<^verbatim>\<open>generatePokemon\<close> reads it.\<close>

record api_metadata =
  id_md :: "string option"
  name_md :: "string option"
  rarity_md :: "string option"

record api_data =
  imageBase64_d :: "string option"
  metadata :: "api_metadata option"
  generatedAt_d :: "int option"
  error_message :: "string option"

text \<open>What \<^verbatim>\<open>res.json()\<close> does: it throws, or yields a value (\<open>None\<close> for \<^verbatim>\<open>null\<close>).\<close>

datatype json_result = JsonThrows | JsonValue "api_data option"

text \<open>What \<^verbatim>\<open>fetch\<close> does: the timeout aborts it, the transport fails, it throws something
  else, or it resolves with a response (\<^verbatim>\<open>res.ok\<close>, \<^verbatim>\<open>res.status\<close>, the body).\<close>

datatype fetch_outcome =
    FetchAbortError
  | FetchFailedToFetch
  | FetchThrows string
  | FetchResponse bool nat json_result

text \<open>The errors \<^verbatim>\<open>generatePokemon\<close> throws, one constructor for each message.\<close>

datatype api_error =
    Api_message string
  | Http_error_status nat
  | Failed_to_generate_http nat
  | Invalid_response_format
  | Request_timed_out
  | Could_not_connect
  | Rethrown string
  | Json_syntax_error

text \<open>JavaScript truthiness of an optional string: absent and empty are both falsy.\<close>

definition falsy :: "string option \<Rightarrow> bool" where
  "falsy v = (case v of None \<Rightarrow> True | Some t \<Rightarrow> t = [])"

definition generatePokemon :: "fetch_outcome \<Rightarrow> (api_error + Pokemon) \<times> console_entry list" where
  "generatePokemon f =
     (case f of
        FetchAbortError \<Rightarrow> (Inl Request_timed_out, [Error_network_or_processing])
      | FetchFailedToFetch \<Rightarrow> (Inl Could_not_connect, [Error_network_or_processing])
      | FetchThrows m \<Rightarrow> (Inl (Rethrown m), [Error_network_or_processing])
      | FetchResponse ok st body \<Rightarrow>
          (if \<not> ok then
             (case body of
                JsonThrows \<Rightarrow>
                  (Inl (Http_error_status st), [Error_api_response, Error_network_or_processing])
              | JsonValue errorData \<Rightarrow>
                  (case errorData of
                     None \<Rightarrow>
                       (Inl (Failed_to_generate_http st),
                        [Error_api_response, Error_network_or_processing])
                   | Some d \<Rightarrow>
                       (if falsy (error_message d)
                        then (Inl (Failed_to_generate_http st),
                              [Error_api_response, Error_network_or_processing])
                        else (Inl (Api_message (the (error_message d))),
                              [Error_api_response, Error_network_or_processing]))))
           else
             (case body of
                JsonThrows \<Rightarrow> (Inl Json_syntax_error, [Error_network_or_processing])
              | JsonValue dat \<Rightarrow>
                  (case dat of
                     None \<Rightarrow> (Inl Invalid_response_format, [Error_network_or_processing])
                   | Some d \<Rightarrow>
                       (case metadata d of
                          None \<Rightarrow> (Inl Invalid_response_format, [Error_network_or_processing])
                        | Some md \<Rightarrow>
                            (if falsy (imageBase64_d d) \<or> falsy (id_md md) \<or> falsy (name_md md)
                                \<or> falsy (rarity_md md) \<or> generatedAt_d d = None
                             then (Inl Invalid_response_format, [Error_network_or_processing])
                             else
                               (let r = mapApiRarityToEnum (the (rarity_md md)) in
                                (Inr \<lparr> id_pk = the (id_md md),
                                       name_pk = the (name_md md),
                                       rarity = fst r,
                                       imageBase64 = the (imageBase64_d d),
                                       generatedAt = the (generatedAt_d d),
                                       status = OWNED,
                                       isFavorite = False \<rparr>,
                                 snd r))))))))"

section \<open>Persistent store (services/indexedDbService.ts)\<close>

text \<open>Every public method of the service, with its argument.\<close>

datatype db_call =
    OpenDatabase
  | GetPokemons
  | GetTokenBalance
  | GetAchievements
  | GetDailyBonusStatus
  | GetPlayerSettings
  | AddPokemon Pokemon
  | UpdatePokemon Pokemon
  | UpdateTokenBalance int
  | UpdateDailyBonusStatus int
  | UpdateAchievement Achievement

datatype error = ApiError api_error | DbError db_call

text \<open>The texts handed to \<^verbatim>\<open>showMessage\<close>, one constructor for each template.\<close>

datatype message_text =
    Txt_achievement_unlocked string
  | Txt_failed_to_load
  | Txt_bonus_received int
  | Txt_need_tokens int
  | Txt_generated string
  | Txt_generation_failed error
  | Txt_resold string int
  | Txt_resell_failed
  | Txt_not_enough_tokens int
  | Txt_bought string int
  | Txt_buy_failed

record AppMessage =
  type_msg :: MessageType
  text_msg :: message_text

text \<open>
  What a run leaves behind, in the order it happened: each call of the store service with
  whether its promise resolved, the call of the remote generator with its result, and
  each message shown.
\<close>

datatype event =
    DbCall db_call bool
  | ApiCall "api_error + Pokemon"
  | ShowMessage MessageType message_text

text \<open>
  The surroundings of one handler run: which store requests the engine carries out
  (\<open>db_ok\<close>; a request it refuses rejects the promise), what \<^verbatim>\<open>fetch\<close> does, the clock
  (\<^verbatim>\<open>new Date()\<close>), \<^verbatim>\<open>Math.random()\<close> and the platform's
  \<^verbatim>\<open>Date.prototype.toDateString\<close>.
\<close>

record env =
  db_ok :: "db_call \<Rightarrow> bool"
  remote :: fetch_outcome
  now :: int
  math_random :: real
  toDateString :: "int \<Rightarrow> string"

text \<open>
  The React state of \<^verbatim>\<open>App\<close> (fields of presentation only are left out), the service's
  cached handle, the three object stores (Settings holds three fixed keys), and the
  events so far.
\<close>

record app_state =
  pokemons :: "Pokemon list"
  tokenBalance :: int
  achievements :: "Achievement list"
  settings :: "PlayerSettings option"
  isLoading :: bool
  isGeneratingPokemon :: bool
  message :: "AppMessage option"
  isModalOpen :: bool
  isModalConfirmLoading :: bool
  isDailyBonusModalOpen :: bool
  dailyBonusAmount :: int
  db_handle :: bool
  db_pokemons :: "Pokemon list"
  db_tokenBalance :: "int option"
  db_dailyBonus :: "int option"
  db_playerSettings :: "PlayerSettings option"
  db_achievements :: "Achievement list"
  events :: "event list"

text \<open>\<^verbatim>\<open>store.put\<close> on a store with key path \<^verbatim>\<open>id\<close>: replace the entry of that key, or
  append. The same replace-or-push is what the \<^verbatim>\<open>setAchievements\<close> update does.\<close>

fun put_by :: "('a \<Rightarrow> string) \<Rightarrow> 'a \<Rightarrow> 'a list \<Rightarrow> 'a list" where
  "put_by key v [] = [v]"
| "put_by key v (x # xs) = (if key x = key v then v # xs else x # put_by key v xs)"

definition openDatabase :: "env \<Rightarrow> app_state \<Rightarrow> bool \<times> app_state" where
  "openDatabase e s =
     (if db_handle s then (True, s)
      else if db_ok e OpenDatabase then (True, s\<lparr>db_handle := True\<rparr>)
      else (False, s))"

text \<open>\<^verbatim>\<open>withTransaction\<close>: open, then run the request; \<open>None\<close> from the request is its
  \<^verbatim>\<open>onerror\<close>, which aborts the transaction and leaves the store as it was.\<close>

definition withTransaction ::
  "env \<Rightarrow> db_call \<Rightarrow> (app_state \<Rightarrow> app_state option) \<Rightarrow> app_state \<Rightarrow> bool \<times> app_state" where
  "withTransaction e c request s =
     (case openDatabase e s of
        (opened, s1) \<Rightarrow>
          (if \<not> opened then (False, s1\<lparr>events := events s1 @ [DbCall c False]\<rparr>)
           else
             (case (if db_ok e c then request s1 else None) of
                None \<Rightarrow> (False, s1\<lparr>events := events s1 @ [DbCall c False]\<rparr>)
              | Some s2 \<Rightarrow> (True, s2\<lparr>events := events s2 @ [DbCall c True]\<rparr>))))"

definition addPokemon :: "env \<Rightarrow> Pokemon \<Rightarrow> app_state \<Rightarrow> bool \<times> app_state" where
  "addPokemon e pokemon s =
     withTransaction e (AddPokemon pokemon)
       (\<lambda>t. if find (\<lambda>q. id_pk q = id_pk pokemon) (db_pokemons t) = None
            then Some (t\<lparr>db_pokemons := db_pokemons t @ [pokemon]\<rparr>)
            else None) s"

definition getPokemons :: "env \<Rightarrow> app_state \<Rightarrow> Pokemon list option \<times> app_state" where
  "getPokemons e s =
     (case withTransaction e GetPokemons Some s of
        (ok, s1) \<Rightarrow> (if ok then Some (db_pokemons s1) else None, s1))"

definition updatePokemon :: "env \<Rightarrow> Pokemon \<Rightarrow> app_state \<Rightarrow> bool \<times> app_state" where
  "updatePokemon e pokemon s =
     withTransaction e (UpdatePokemon pokemon)
       (\<lambda>t. Some (t\<lparr>db_pokemons := put_by id_pk pokemon (db_pokemons t)\<rparr>)) s"

definition getTokenBalance :: "env \<Rightarrow> app_state \<Rightarrow> int option \<times> app_state" where
  "getTokenBalance e s =
     (case withTransaction e GetTokenBalance
             (\<lambda>t. case db_tokenBalance t of
                     None \<Rightarrow> Some (t\<lparr>db_tokenBalance := Some 100\<rparr>)
                   | Some b \<Rightarrow> Some t) s of
        (ok, s1) \<Rightarrow> (if ok then db_tokenBalance s1 else None, s1))"

definition updateTokenBalance :: "env \<Rightarrow> int \<Rightarrow> app_state \<Rightarrow> bool \<times> app_state" where
  "updateTokenBalance e newAmount s =
     withTransaction e (UpdateTokenBalance newAmount)
       (\<lambda>t. Some (t\<lparr>db_tokenBalance := Some newAmount\<rparr>)) s"

text \<open>\<^verbatim>\<open>getDailyBonusStatus\<close>: the outer option is the promise (\<open>None\<close>: it rejects), the
  inner one the record (\<open>None\<close>: \<^verbatim>\<open>undefined\<close>, nothing stored).\<close>

definition getDailyBonusStatus :: "env \<Rightarrow> app_state \<Rightarrow> int option option \<times> app_state" where
  "getDailyBonusStatus e s =
     (case withTransaction e GetDailyBonusStatus Some s of
        (ok, s1) \<Rightarrow> (if ok then Some (db_dailyBonus s1) else None, s1))"

definition updateDailyBonusStatus :: "env \<Rightarrow> int \<Rightarrow> app_state \<Rightarrow> bool \<times> app_state" where
  "updateDailyBonusStatus e lastClaimed s =
     withTransaction e (UpdateDailyBonusStatus lastClaimed)
       (\<lambda>t. Some (t\<lparr>db_dailyBonus := Some lastClaimed\<rparr>)) s"

definition defaultSettings :: PlayerSettings where
  "defaultSettings = \<lparr> theme_dark = True, isMuted = True, playerName = ''Ash'' \<rparr>"

definition getPlayerSettings :: "env \<Rightarrow> app_state \<Rightarrow> PlayerSettings option \<times> app_state" where
  "getPlayerSettings e s =
     (case withTransaction e GetPlayerSettings
             (\<lambda>t. case db_playerSettings t of
                     None \<Rightarrow> Some (t\<lparr>db_playerSettings := Some defaultSettings\<rparr>)
                   | Some b \<Rightarrow> Some t) s of
        (ok, s1) \<Rightarrow> (if ok then db_playerSettings s1 else None, s1))"

definition getAchievements :: "env \<Rightarrow> app_state \<Rightarrow> Achievement list option \<times> app_state" where
  "getAchievements e s =
     (case withTransaction e GetAchievements Some s of
        (ok, s1) \<Rightarrow> (if ok then Some (db_achievements s1) else None, s1))"

definition updateAchievement :: "env \<Rightarrow> Achievement \<Rightarrow> app_state \<Rightarrow> bool \<times> app_state" where
  "updateAchievement e achievement s =
     withTransaction e (UpdateAchievement achievement)
       (\<lambda>t. Some (t\<lparr>db_achievements := put_by id_ach achievement (db_achievements t)\<rparr>)) s"

section \<open>Application state controller (App.tsx)\<close>

definition GENERATION_COST :: int where
  "GENERATION_COST = 10"

record achievement_def =
  id_def :: string
  name_def :: string
  description_def :: string

definition ALL_ACHIEVEMENTS :: "achievement_def list" where
  "ALL_ACHIEVEMENTS =
     [\<lparr> id_def = ''FIRST_FORGE'', name_def = ''Premiere Forge'',
        description_def = ''Generer votre premier Pokemon.'' \<rparr>,
      \<lparr> id_def = ''TEN_FORGES'', name_def = ''Forgeron Amateur'',
        description_def = ''Generer 10 Pokemon.'' \<rparr>,
      \<lparr> id_def = ''FIRST_SALE'', name_def = ''Premier Profit'',
        description_def = ''Revendre un Pokemon sur le marche.'' \<rparr>,
      \<lparr> id_def = ''LEGENDARY_FORGE'', name_def = ''Main de Midas'',
        description_def = ''Generer un Pokemon Legendaire ou Mythique.'' \<rparr>]"

text \<open>\<^verbatim>\<open>showMessage\<close> (the timer that clears the message after five seconds is left out).\<close>

definition showMessage :: "MessageType \<Rightarrow> message_text \<Rightarrow> app_state \<Rightarrow> app_state" where
  "showMessage ty txt s =
     s\<lparr>message := Some \<lparr> type_msg = ty, text_msg = txt \<rparr>,
       events := events s @ [ShowMessage ty txt]\<rparr>"

text \<open>The \<^verbatim>\<open>switch\<close> of \<^verbatim>\<open>checkAndUnlockAchievements\<close>.\<close>

definition shouldUnlock :: "string \<Rightarrow> Pokemon list \<Rightarrow> bool" where
  "shouldUnlock i currentPokemons =
     (if i = ''FIRST_FORGE'' then 1 \<le> length currentPokemons
      else if i = ''TEN_FORGES'' then 10 \<le> length currentPokemons
      else if i = ''FIRST_SALE'' then list_ex (\<lambda>p. status p = RESOLD) currentPokemons
      else if i = ''LEGENDARY_FORGE''
        then list_ex (\<lambda>p. rarity p = LEGENDARY \<or> rarity p = MYTHIC) currentPokemons
      else False)"

definition alreadyUnlocked :: "Achievement list \<Rightarrow> string \<Rightarrow> bool" where
  "alreadyUnlocked currentAchievements i =
     (case find (\<lambda>a. id_ach a = i) currentAchievements of
        None \<Rightarrow> False
      | Some existingAchievement \<Rightarrow> unlocked existingAchievement)"

definition newAchievement :: "env \<Rightarrow> achievement_def \<Rightarrow> Achievement" where
  "newAchievement e achievementDef =
     \<lparr> id_ach = id_def achievementDef, name_ach = name_def achievementDef,
       description = description_def achievementDef,
       unlocked = True, unlockedAt = Some (now e) \<rparr>"

text \<open>The \<^verbatim>\<open>for\<close> loop of \<^verbatim>\<open>checkAndUnlockAchievements\<close> over the definitions left, with
  \<^verbatim>\<open>unlockedAchievements\<close> as accumulator; a rejected write throws out of the loop.\<close>

fun unlockLoop ::
  "env \<Rightarrow> Pokemon list \<Rightarrow> Achievement list \<Rightarrow> achievement_def list \<Rightarrow> Achievement list
     \<Rightarrow> app_state \<Rightarrow> (error + Achievement list) \<times> app_state" where
  "unlockLoop e currentPokemons currentAchievements [] unlockedAchievements s =
     (Inr unlockedAchievements, s)"
| "unlockLoop e currentPokemons currentAchievements (achievementDef # defs) unlockedAchievements s =
     (if alreadyUnlocked currentAchievements (id_def achievementDef)
      then unlockLoop e currentPokemons currentAchievements defs unlockedAchievements s
      else if shouldUnlock (id_def achievementDef) currentPokemons
      then (case updateAchievement e (newAchievement e achievementDef) s of
              (ok, s1) \<Rightarrow>
                (if \<not> ok then (Inl (DbError (UpdateAchievement (newAchievement e achievementDef))), s1)
                 else unlockLoop e currentPokemons currentAchievements defs
                        (unlockedAchievements @ [newAchievement e achievementDef])
                        (showMessage Success
                           (Txt_achievement_unlocked (name_def achievementDef)) s1)))
      else unlockLoop e currentPokemons currentAchievements defs unlockedAchievements s)"

text \<open>\<^verbatim>\<open>checkAndUnlockAchievements\<close>; \<open>Some err\<close> is the promise rejecting with \<open>err\<close>.\<close>

definition checkAndUnlockAchievements ::
  "env \<Rightarrow> Pokemon list \<Rightarrow> Achievement list \<Rightarrow> app_state \<Rightarrow> error option \<times> app_state" where
  "checkAndUnlockAchievements e currentPokemons currentAchievements s =
     (case unlockLoop e currentPokemons currentAchievements ALL_ACHIEVEMENTS [] s of
        (Inl err, s1) \<Rightarrow> (Some err, s1)
      | (Inr unlockedAchievements, s1) \<Rightarrow>
          (None,
           if unlockedAchievements \<noteq> []
           then s1\<lparr>achievements :=
                     foldl (\<lambda>updated u. put_by id_ach u updated) (achievements s1)
                       unlockedAchievements\<rparr>
           else s1))"

text \<open>The comparator \<^verbatim>\<open>(a, b) => getTime(b) - getTime(a)\<close> under the stable \<^verbatim>\<open>sort\<close>.\<close>

definition sortNewestFirst :: "Pokemon list \<Rightarrow> Pokemon list" where
  "sortNewestFirst ps = sort_key (\<lambda>p. - generatedAt p) ps"

definition getResellValue :: "PokemonRarity \<Rightarrow> int" where
  "getResellValue r =
     (case r of COMMON \<Rightarrow> 5 | RARE \<Rightarrow> 10 | EPIC \<Rightarrow> 20 | LEGENDARY \<Rightarrow> 40 | MYTHIC \<Rightarrow> 80)"

definition getBuyPrice :: "PokemonRarity \<Rightarrow> int" where
  "getBuyPrice r = getResellValue r * 2"

text \<open>The \<^verbatim>\<open>try\<close> block of \<^verbatim>\<open>handleGeneratePokemon\<close>; \<open>Some err\<close> is what it throws.\<close>

definition handleGeneratePokemon_try ::
  "env \<Rightarrow> int \<Rightarrow> Pokemon list \<Rightarrow> Achievement list \<Rightarrow> app_state \<Rightarrow> error option \<times> app_state" where
  "handleGeneratePokemon_try e originalTokenBalance pokemons0 achievements0 s =
     (let newBalanceAfterDeduction = originalTokenBalance - GENERATION_COST in
      case updateTokenBalance e newBalanceAfterDeduction
             (s\<lparr>tokenBalance := newBalanceAfterDeduction\<rparr>) of
        (debited, s1) \<Rightarrow>
          (if \<not> debited then (Some (DbError (UpdateTokenBalance newBalanceAfterDeduction)), s1)
           else
             (case fst (generatePokemon (remote e)) of
                Inl err \<Rightarrow> (Some (ApiError err), s1\<lparr>events := events s1 @ [ApiCall (Inl err)]\<rparr>)
              | Inr newPokemon \<Rightarrow>
                  (case addPokemon e newPokemon
                          (s1\<lparr>events := events s1 @ [ApiCall (Inr newPokemon)]\<rparr>) of
                     (added, s2) \<Rightarrow>
                       (if \<not> added then (Some (DbError (AddPokemon newPokemon)), s2)
                        else
                          (let updatedPokemons = sortNewestFirst (newPokemon # pokemons0) in
                           case checkAndUnlockAchievements e updatedPokemons achievements0
                                  (s2\<lparr>pokemons := updatedPokemons\<rparr>) of
                             (Some err, s3) \<Rightarrow> (Some err, s3)
                           | (None, s3) \<Rightarrow>
                               (None,
                                showMessage Success (Txt_generated (name_pk newPokemon)) s3)))))))"

text \<open>\<^verbatim>\<open>handleGeneratePokemon\<close>; \<open>Some err\<close> is the handler's promise rejecting, which happens
  when the write in the \<^verbatim>\<open>catch\<close> block itself throws.\<close>

definition handleGeneratePokemon :: "env \<Rightarrow> app_state \<Rightarrow> error option \<times> app_state" where
  "handleGeneratePokemon e s =
     (if tokenBalance s < GENERATION_COST
      then (None, showMessage Warning (Txt_need_tokens GENERATION_COST) s)
      else
        (let originalTokenBalance = tokenBalance s in
         case handleGeneratePokemon_try e originalTokenBalance (pokemons s) (achievements s)
                (s\<lparr>isGeneratingPokemon := True\<rparr>) of
           (None, s1) \<Rightarrow> (None, s1\<lparr>isGeneratingPokemon := False\<rparr>)
         | (Some err, s1) \<Rightarrow>
             (case updateTokenBalance e originalTokenBalance
                     (s1\<lparr>tokenBalance := originalTokenBalance\<rparr>) of
                (refunded, s2) \<Rightarrow>
                  (if \<not> refunded
                   then (Some (DbError (UpdateTokenBalance originalTokenBalance)),
                         s2\<lparr>isGeneratingPokemon := False\<rparr>)
                   else (None,
                         (showMessage Error (Txt_generation_failed err) s2)
                           \<lparr>isGeneratingPokemon := False\<rparr>)))))"

text \<open>\<^verbatim>\<open>handleResellConfirmation\<close> opens the confirmation dialog; the function it installs
  as \<^verbatim>\<open>onConfirm\<close> is \<open>handleResellConfirmation_onConfirm\<close>.\<close>

definition handleResellConfirmation :: "Pokemon \<Rightarrow> app_state \<Rightarrow> app_state" where
  "handleResellConfirmation pokemon s = s\<lparr>isModalOpen := True\<rparr>"

definition handleResellConfirmation_try ::
  "env \<Rightarrow> Pokemon \<Rightarrow> int \<Rightarrow> Pokemon list \<Rightarrow> Achievement list \<Rightarrow> app_state
     \<Rightarrow> error option \<times> app_state" where
  "handleResellConfirmation_try e pokemon tokenBalance0 pokemons0 achievements0 s =
     (let resellValue = getResellValue (rarity pokemon);
          updatedPokemon = pokemon\<lparr>status := RESOLD\<rparr> in
      case updatePokemon e updatedPokemon s of
        (updated, s1) \<Rightarrow>
          (if \<not> updated then (Some (DbError (UpdatePokemon updatedPokemon)), s1)
           else
             (let newBalance = tokenBalance0 + resellValue in
              case updateTokenBalance e newBalance s1 of
                (credited, s2) \<Rightarrow>
                  (if \<not> credited then (Some (DbError (UpdateTokenBalance newBalance)), s2)
                   else
                     (let updatedPokemons =
                            map (\<lambda>p. if id_pk p = id_pk updatedPokemon then updatedPokemon else p)
                              pokemons0 in
                      case checkAndUnlockAchievements e updatedPokemons achievements0
                             (s2\<lparr>pokemons := updatedPokemons, tokenBalance := newBalance\<rparr>) of
                        (Some err, s3) \<Rightarrow> (Some err, s3)
                      | (None, s3) \<Rightarrow>
                          (None,
                           showMessage Success
                             (Txt_resold (name_pk pokemon) resellValue) s3))))))"

definition handleResellConfirmation_onConfirm :: "env \<Rightarrow> Pokemon \<Rightarrow> app_state \<Rightarrow> app_state" where
  "handleResellConfirmation_onConfirm e pokemon s =
     (case handleResellConfirmation_try e pokemon (tokenBalance s) (pokemons s) (achievements s)
             (s\<lparr>isModalConfirmLoading := True\<rparr>) of
        (None, s1) \<Rightarrow> s1\<lparr>isModalConfirmLoading := False, isModalOpen := False\<rparr>
      | (Some err, s1) \<Rightarrow>
          (showMessage Error Txt_resell_failed s1)
            \<lparr>isModalConfirmLoading := False, isModalOpen := False\<rparr>)"

definition handleBuyPokemon :: "env \<Rightarrow> Pokemon \<Rightarrow> app_state \<Rightarrow> app_state" where
  "handleBuyPokemon e pokemon s =
     (let buyPrice = getBuyPrice (rarity pokemon) in
      if tokenBalance s < buyPrice
      then showMessage Warning (Txt_not_enough_tokens buyPrice) s
      else
        (let updatedPokemon = pokemon\<lparr>status := OWNED\<rparr> in
         case updatePokemon e updatedPokemon s of
           (updated, s1) \<Rightarrow>
             (if \<not> updated then showMessage Error Txt_buy_failed s1
              else
                (let newBalance = tokenBalance s - buyPrice in
                 case updateTokenBalance e newBalance s1 of
                   (debited, s2) \<Rightarrow>
                     (if \<not> debited then showMessage Error Txt_buy_failed s2
                      else
                        showMessage Success (Txt_bought (name_pk pokemon) buyPrice)
                          (s2\<lparr>pokemons :=
                                map (\<lambda>p. if id_pk p = id_pk updatedPokemon
                                         then updatedPokemon else p) (pokemons s2),
                              tokenBalance := newBalance\<rparr>))))))"

definition handleClaimDailyBonus :: "env \<Rightarrow> app_state \<Rightarrow> error option \<times> app_state" where
  "handleClaimDailyBonus e s =
     (let newBalance = tokenBalance s + dailyBonusAmount s in
      case updateTokenBalance e newBalance s of
        (credited, s1) \<Rightarrow>
          (if \<not> credited then (Some (DbError (UpdateTokenBalance newBalance)), s1)
           else
             (case updateDailyBonusStatus e (now e) s1 of
                (stamped, s2) \<Rightarrow>
                  (if \<not> stamped then (Some (DbError (UpdateDailyBonusStatus (now e))), s2)
                   else
                     (None,
                      showMessage Success (Txt_bonus_received (dailyBonusAmount s))
                        (s2\<lparr>tokenBalance := newBalance, isDailyBonusModalOpen := False\<rparr>))))))"

text \<open>The daily-bonus dialog: \<^verbatim>\<open>Modal\<close> renders nothing unless \<^verbatim>\<open>isOpen\<close>, so its confirm
  button, whose handler is \<^verbatim>\<open>handleClaimDailyBonus\<close>, exists only while the dialog is open.\<close>

definition dailyBonusModal_onConfirm :: "env \<Rightarrow> app_state \<Rightarrow> error option \<times> app_state" where
  "dailyBonusModal_onConfirm e s =
     (if isDailyBonusModalOpen s then handleClaimDailyBonus e s else (None, s))"

text \<open>The condition of the daily-bonus \<^verbatim>\<open>if\<close> in \<^verbatim>\<open>fetchAppData\<close>.\<close>

definition dailyBonusDue :: "env \<Rightarrow> int option \<Rightarrow> bool" where
  "dailyBonusDue e bonusStatus =
     (case bonusStatus of
        None \<Rightarrow> True
      | Some lastClaimed \<Rightarrow> toDateString e lastClaimed \<noteq> toDateString e (now e))"

text \<open>The \<^verbatim>\<open>try\<close> block of \<^verbatim>\<open>fetchAppData\<close>. The five reads of \<^verbatim>\<open>Promise.all\<close> are all
  issued; the block throws when one of them rejects.\<close>

definition fetchAppData_try :: "env \<Rightarrow> app_state \<Rightarrow> error option \<times> app_state" where
  "fetchAppData_try e s =
     (case openDatabase e s of
        (opened, s0) \<Rightarrow>
          (if \<not> opened then (Some (DbError OpenDatabase), s0)
           else
             (case getPokemons e s0 of (r1, s1) \<Rightarrow>
             (case getTokenBalance e s1 of (r2, s2) \<Rightarrow>
             (case getAchievements e s2 of (r3, s3) \<Rightarrow>
             (case getDailyBonusStatus e s3 of (r4, s4) \<Rightarrow>
             (case getPlayerSettings e s4 of (r5, s5) \<Rightarrow>
                (case r1 of None \<Rightarrow> (Some (DbError GetPokemons), s5) | Some fetchedPokemons \<Rightarrow>
                (case r2 of None \<Rightarrow> (Some (DbError GetTokenBalance), s5) | Some balance \<Rightarrow>
                (case r3 of None \<Rightarrow> (Some (DbError GetAchievements), s5)
                          | Some fetchedAchievements \<Rightarrow>
                (case r4 of None \<Rightarrow> (Some (DbError GetDailyBonusStatus), s5)
                          | Some bonusStatus \<Rightarrow>
                (case r5 of None \<Rightarrow> (Some (DbError GetPlayerSettings), s5)
                          | Some playerSettings \<Rightarrow>
                   (let sortedPokemons = sortNewestFirst fetchedPokemons;
                        s6 = s5\<lparr>pokemons := sortedPokemons, tokenBalance := balance,
                                settings := Some playerSettings\<rparr>;
                        s7 = (if dailyBonusDue e bonusStatus
                              then s6\<lparr>dailyBonusAmount := \<lfloor>math_random e * 6\<rfloor> + 5,
                                      isDailyBonusModalOpen := True\<rparr>
                              else s6);
                        allAchievements =
                          map (\<lambda>d. (case find (\<lambda>a. id_ach a = id_def d) (rev fetchedAchievements) of
                                      Some a \<Rightarrow> a
                                    | None \<Rightarrow> \<lparr> id_ach = id_def d, name_ach = name_def d,
                                                description = description_def d,
                                                unlocked = False, unlockedAt = None \<rparr>))
                            ALL_ACHIEVEMENTS
                    in checkAndUnlockAchievements e sortedPokemons allAchievements
                         (s7\<lparr>achievements := allAchievements\<rparr>))))))))))))))"

definition fetchAppData :: "env \<Rightarrow> app_state \<Rightarrow> app_state" where
  "fetchAppData e s =
     (case fetchAppData_try e (s\<lparr>isLoading := True\<rparr>) of
        (None, s1) \<Rightarrow> s1\<lparr>isLoading := False\<rparr>
      | (Some err, s1) \<Rightarrow> (showMessage Error Txt_failed_to_load s1)\<lparr>isLoading := False\<rparr>)"

section \<open>Sequences of intents\<close>

text \<open>The three balance-changing intents of the presentation layer, each run to its end
  in its own surroundings before the next one starts.\<close>

datatype intent = Generate | Resell Pokemon | Buy Pokemon

fun dispatch :: "env \<Rightarrow> intent \<Rightarrow> app_state \<Rightarrow> app_state" where
  "dispatch e Generate s = snd (handleGeneratePokemon e s)"
| "dispatch e (Resell pokemon) s =
     handleResellConfirmation_onConfirm e pokemon (handleResellConfirmation pokemon s)"
| "dispatch e (Buy pokemon) s = handleBuyPokemon e pokemon s"

fun dispatch_all :: "(env \<times> intent) list \<Rightarrow> app_state \<Rightarrow> app_state" where
  "dispatch_all [] s = s"
| "dispatch_all ((e, i) # rest) s = dispatch_all rest (dispatch e i s)"

text \<open>The balance writes among a list of events, replayed on a persisted balance.\<close>

fun replay_balance :: "event list \<Rightarrow> int option \<Rightarrow> int option" where
  "replay_balance [] b = b"
| "replay_balance (DbCall (UpdateTokenBalance n) True # evs) b = replay_balance evs (Some n)"
| "replay_balance (ev # evs) b = replay_balance evs b"

definition is_db_call :: "event \<Rightarrow> bool" where
  "is_db_call ev = (case ev of DbCall c ok \<Rightarrow> True | _ \<Rightarrow> False)"

definition is_api_call :: "event \<Rightarrow> bool" where
  "is_api_call ev = (case ev of ApiCall r \<Rightarrow> True | _ \<Rightarrow> False)"

section \<open>Concrete runs\<close>

definition example_pokemon :: "string \<Rightarrow> PokemonRarity \<Rightarrow> PokemonStatus \<Rightarrow> Pokemon" where
  "example_pokemon i r st =
     \<lparr> id_pk = i, name_pk = ''Forgemon'', rarity = r, imageBase64 = ''AAAA'',
       generatedAt = 1000, status = st, isFavorite = False \<rparr>"

definition example_response :: "string \<Rightarrow> string \<Rightarrow> fetch_outcome" where
  "example_response i code =
     FetchResponse True 200
       (JsonValue (Some \<lparr> imageBase64_d = Some ''AAAA'',
                          metadata = Some \<lparr> id_md = Some i, name_md = Some ''Forgemon'',
                                            rarity_md = Some code \<rparr>,
                          generatedAt_d = Some 1000, error_message = None \<rparr>))"

text \<open>Surroundings with a day of 86400000 milliseconds, the clock at \<open>t\<close>.\<close>

definition example_env :: "(db_call \<Rightarrow> bool) \<Rightarrow> fetch_outcome \<Rightarrow> int \<Rightarrow> env" where
  "example_env ok f t =
     \<lparr> db_ok = ok, remote = f, now = t, math_random = 1 / 2,
       toDateString = (\<lambda>i. if i div 86400000 = 0 then ''Thu Jan 01 1970'' else ''Fri Jan 02 1970'') \<rparr>"

text \<open>State after a first load: balance \<open>b\<close> in memory and in the store, the items \<open>ps\<close>.\<close>

definition example_state :: "int \<Rightarrow> Pokemon list \<Rightarrow> app_state" where
  "example_state b ps =
     \<lparr> pokemons = ps, tokenBalance = b, achievements = [], settings = Some defaultSettings,
       isLoading = False, isGeneratingPokemon = False, message = None,
       isModalOpen = False, isModalConfirmLoading = False,
       isDailyBonusModalOpen = False, dailyBonusAmount = 0,
       db_handle = True, db_pokemons = ps, db_tokenBalance = Some b,
       db_dailyBonus = None, db_playerSettings = Some defaultSettings,
       db_achievements = [], events = [] \<rparr>"

text \<open>A store engine that refuses every balance write and carries out everything else.\<close>

definition refuse_balance_writes :: "db_call \<Rightarrow> bool" where
  "refuse_balance_writes c = (case c of UpdateTokenBalance n \<Rightarrow> False | _ \<Rightarrow> True)"

text \<open>A store engine that refuses one call and carries out everything else.\<close>

definition refuse_only :: "db_call \<Rightarrow> db_call \<Rightarrow> bool" where
  "refuse_only c0 c = (c \<noteq> c0)"

text \<open>A store engine that carries out every call.\<close>

definition carry_out_all :: "db_call \<Rightarrow> bool" where
  "carry_out_all c = True"

text \<open>Three intents in a row: a generation that yields a Legendary item, its resale, and
  buying it back.\<close>

definition example_intents :: "(env \<times> intent) list" where
  "example_intents =
     [(example_env carry_out_all (example_response ''p1'' ''A'') 5000, Generate),
      (example_env carry_out_all FetchAbortError 6000,
       Resell (example_pokemon ''p1'' LEGENDARY OWNED)),
      (example_env carry_out_all FetchAbortError 7000,
       Buy (example_pokemon ''p1'' LEGENDARY RESOLD))]"

text \<open>What a page load starts from: the initial values of the \<^verbatim>\<open>useState\<close> hooks of
  \<^verbatim>\<open>App\<close> and a service whose handle is \<^verbatim>\<open>null\<close>, over the stores as they are.\<close>

definition mount :: "app_state \<Rightarrow> app_state" where
  "mount s =
     \<lparr> pokemons = [], tokenBalance = 0, achievements = [], settings = None,
       isLoading = True, isGeneratingPokemon = False, message = None,
       isModalOpen = False, isModalConfirmLoading = False,
       isDailyBonusModalOpen = False, dailyBonusAmount = 0,
       db_handle = False, db_pokemons = db_pokemons s, db_tokenBalance = db_tokenBalance s,
       db_dailyBonus = db_dailyBonus s, db_playerSettings = db_playerSettings s,
       db_achievements = db_achievements s, events = events s \<rparr>"

text \<open>A state in which a bonus of 7 tokens is on offer.\<close>

definition example_bonus_state :: app_state where
  "example_bonus_state = (example_state 100 [])\<lparr>isDailyBonusModalOpen := True, dailyBonusAmount := 7\<rparr>"

section \<open>Notions used in the statements\<close>

text \<open>A definition is due in an evaluation when it is not skipped as already unlocked and
  its predicate holds of the items.\<close>

definition unlock_due :: "Achievement list \<Rightarrow> Pokemon list \<Rightarrow> achievement_def \<Rightarrow> bool" where
  "unlock_due currentAchievements currentPokemons d =
     (\<not> alreadyUnlocked currentAchievements (id_def d) \<and> shouldUnlock (id_def d) currentPokemons)"

text \<open>The events an achievement evaluation can cause.\<close>

definition ach_event :: "event \<Rightarrow> bool" where
  "ach_event ev =
     (case ev of
        DbCall c ok \<Rightarrow> (case c of UpdateAchievement a \<Rightarrow> True | _ \<Rightarrow> False)
      | ApiCall r \<Rightarrow> False
      | ShowMessage ty txt \<Rightarrow> ty = Success)"

text \<open>The events an achievement evaluation adds when run in state \<open>s\<close>.\<close>

definition ach_events :: "env \<Rightarrow> Pokemon list \<Rightarrow> Achievement list \<Rightarrow> app_state \<Rightarrow> event list" where
  "ach_events e currentPokemons currentAchievements s =
     drop (length (events s))
       (events (snd (checkAndUnlockAchievements e currentPokemons currentAchievements s)))"

text \<open>A step that was observed to fail: a rejected store call or a failed remote call.\<close>

definition failed_step :: "event \<Rightarrow> bool" where
  "failed_step ev =
     (case ev of
        DbCall c ok \<Rightarrow> \<not> ok
      | ApiCall r \<Rightarrow> (case r of Inl err \<Rightarrow> True | Inr p \<Rightarrow> False)
      | ShowMessage ty txt \<Rightarrow> False)"

text \<open>The balance invariant: neither the balance in memory nor a persisted balance is
  negative.\<close>

definition balance_ok :: "app_state \<Rightarrow> bool" where
  "balance_ok s = (0 \<le> tokenBalance s \<and> (case db_tokenBalance s of None \<Rightarrow> True | Some b \<Rightarrow> 0 \<le> b))"

text \<open>The five ways a generation attempt that passed its guard can go after the debit
  write \<open>DbCall debit debited\<close>: the events \<open>rest\<close> that follow it, where \<open>refund\<close> is the
  compensating write, \<open>rf\<close> its outcome and \<open>msg\<close> the closing message, if any.\<close>

definition generation_shape ::
  "db_call \<Rightarrow> bool \<Rightarrow> bool \<Rightarrow> event list \<Rightarrow> event list \<Rightarrow> bool" where
  "generation_shape refund debited rf msg rest =
     ((\<not> debited \<and> rest = DbCall refund rf # msg)
      \<or> (debited \<and> (\<exists>err. rest = ApiCall (Inl err) # DbCall refund rf # msg))
      \<or> (debited \<and> (\<exists>p. rest = ApiCall (Inr p) # DbCall (AddPokemon p) False
                               # DbCall refund rf # msg))
      \<or> (debited \<and> (\<exists>p evs. (\<forall>ev \<in> set evs. ach_event ev)
             \<and> rest = ApiCall (Inr p) # DbCall (AddPokemon p) True # evs @ msg))
      \<or> (debited \<and> (\<exists>p evs a. (\<forall>ev \<in> set evs. ach_event ev)
             \<and> rest = ApiCall (Inr p) # DbCall (AddPokemon p) True
                        # evs @ DbCall (UpdateAchievement a) False # DbCall refund rf # msg)))"

text \<open>The store opens and carries out the five reads of \<^verbatim>\<open>fetchAppData\<close>.\<close>

definition loads :: "env \<Rightarrow> app_state \<Rightarrow> bool" where
  "loads e s =
     ((db_handle s \<or> db_ok e OpenDatabase)
      \<and> db_ok e GetPokemons \<and> db_ok e GetTokenBalance \<and> db_ok e GetAchievements
      \<and> db_ok e GetDailyBonusStatus \<and> db_ok e GetPlayerSettings)"

section \<open>The achievement claims in their own words\<close>

text \<open>
  The four unlock predicates as the specification words them, over an item set: first
  generation ever (at least 1 item), tenth generation reached (at least 10 items), first
  resale ever (some item with status Resold), any Legendary-or-Mythic item, owned or
  resold. They are stated independently of \<open>shouldUnlock\<close>, to be compared with it.
\<close>

definition spec_predicate :: "string \<Rightarrow> Pokemon list \<Rightarrow> bool" where
  "spec_predicate i items =
     (if i = ''FIRST_FORGE'' then 1 \<le> length items
      else if i = ''TEN_FORGES'' then 10 \<le> length items
      else if i = ''FIRST_SALE'' then (\<exists>p \<in> set items. status p = RESOLD)
      else if i = ''LEGENDARY_FORGE''
        then (\<exists>p \<in> set items. rarity p = LEGENDARY \<or> rarity p = MYTHIC)
      else False)"

text \<open>
  A definition is newly satisfied, for a set of achievements and a set of items, when its
  predicate holds of the items and the set of achievements has no entry of its key or
  the entry of its key has \<open>unlocked\<close> false. Stated independently of
  \<open>alreadyUnlocked\<close>, to be compared with it.
\<close>

definition spec_newly_satisfied :: "Achievement list \<Rightarrow> Pokemon list \<Rightarrow> achievement_def \<Rightarrow> bool" where
  "spec_newly_satisfied given items d =
     (spec_predicate (id_def d) items
      \<and> (case find (\<lambda>a. id_ach a = id_def d) given of
            None \<Rightarrow> True
          | Some a \<Rightarrow> unlocked a = False))"

text \<open>The record an unlock at instant \<open>t\<close> persists for a definition.\<close>

definition unlocked_record :: "int \<Rightarrow> achievement_def \<Rightarrow> Achievement" where
  "unlocked_record t d =
     \<lparr> id_ach = id_def d, name_ach = name_def d, description = description_def d,
       unlocked = True, unlockedAt = Some t \<rparr>"

section \<open>Concrete states as the application reaches them\<close>

text \<open>The entry \<^verbatim>\<open>fetchAppData\<close> makes for a definition that has no record in the store.\<close>

definition locked_entry :: "achievement_def \<Rightarrow> Achievement" where
  "locked_entry d =
     \<lparr> id_ach = id_def d, name_ach = name_def d, description = description_def d,
       unlocked = False, unlockedAt = None \<rparr>"

text \<open>State after a load over stores that hold balance \<open>b\<close>, the items \<open>ps\<close> and no
  achievement: the controller's set has the four definitions, all locked.\<close>

definition example_loaded_state :: "int \<Rightarrow> Pokemon list \<Rightarrow> app_state" where
  "example_loaded_state b ps = (example_state b ps)\<lparr>achievements := map locked_entry ALL_ACHIEVEMENTS\<rparr>"

text \<open>A first generation in which the store refuses exactly the write of the
  Legendary-forge unlock, and the state it leaves.\<close>

definition example_refusing_env :: env where
  "example_refusing_env =
     example_env
       (refuse_only (UpdateAchievement
          \<lparr> id_ach = ''LEGENDARY_FORGE'', name_ach = ''Main de Midas'',
            description = ''Generer un Pokemon Legendaire ou Mythique.'',
            unlocked = True, unlockedAt = Some 5000 \<rparr>))
       (example_response ''p1'' ''A'') 5000"

definition example_after_aborted_evaluation :: app_state where
  "example_after_aborted_evaluation =
     snd (handleGeneratePokemon example_refusing_env (example_loaded_state 100 []))"

text \<open>A second generation, at instant 9000, with a store that carries out every call.\<close>

definition example_second_env :: env where
  "example_second_env = example_env carry_out_all (example_response ''p2'' ''F'') 9000"

text \<open>Nine items, oldest first.\<close>

definition example_nine :: "Pokemon list" where
  "example_nine =
     [example_pokemon ''a1'' COMMON OWNED, example_pokemon ''a2'' COMMON OWNED,
      example_pokemon ''a3'' COMMON OWNED, example_pokemon ''a4'' RARE OWNED,
      example_pokemon ''a5'' COMMON OWNED, example_pokemon ''a6'' EPIC OWNED,
      example_pokemon ''a7'' COMMON OWNED, example_pokemon ''a8'' RARE OWNED,
      example_pokemon ''a9'' COMMON OWNED]"

text \<open>The set of achievements \<^verbatim>\<open>fetchAppData\<close> builds from the records it fetched: for each
  definition the fetched record of its key (the last one, as \<^verbatim>\<open>Map\<close> keeps it), or a
  locked entry.\<close>

definition allAchievements_of :: "Achievement list \<Rightarrow> Achievement list" where
  "allAchievements_of fetchedAchievements =
     map (\<lambda>d. (case find (\<lambda>a. id_ach a = id_def d) (rev fetchedAchievements) of
                 Some a \<Rightarrow> a
               | None \<Rightarrow> locked_entry d))
       ALL_ACHIEVEMENTS"

text \<open>A state with nine items in which the first-forge achievement was unlocked at
  instant 100 and the other three are locked.\<close>

definition example_ninth_state :: app_state where
  "example_ninth_state =
     (example_state 100 example_nine)
       \<lparr>achievements :=
          [unlocked_record 100 (ALL_ACHIEVEMENTS ! 0), locked_entry (ALL_ACHIEVEMENTS ! 1),
           locked_entry (ALL_ACHIEVEMENTS ! 2), locked_entry (ALL_ACHIEVEMENTS ! 3)],
        db_achievements := [unlocked_record 100 (ALL_ACHIEVEMENTS ! 0)]\<rparr>"


text \<open>A generation at instant 5000 that yields a Common item, with a store that carries
  out every call.\<close>

definition example_tenth_env :: env where
  "example_tenth_env = example_env carry_out_all (example_response ''p10'' ''F'') 5000"
section \<open>The store operations in closed form\<close>

lemma db_handle_idem: "db_handle s \<Longrightarrow> s\<lparr>db_handle := True\<rparr> = s"
  by simp

lemma withTransaction_total:
  "withTransaction e c (\<lambda>t. Some (f t)) s =
     (if (db_handle s \<or> db_ok e OpenDatabase) \<and> db_ok e c
      then (True, (f (s\<lparr>db_handle := True\<rparr>))\<lparr>events := events (f (s\<lparr>db_handle := True\<rparr>)) @ [DbCall c True]\<rparr>)
      else (False, s\<lparr>db_handle := db_handle s \<or> db_ok e OpenDatabase, events := events s @ [DbCall c False]\<rparr>))"
  by (auto simp add: withTransaction_def openDatabase_def db_handle_idem)

lemma updateTokenBalance_eq:
  "updateTokenBalance e n s =
     (if (db_handle s \<or> db_ok e OpenDatabase) \<and> db_ok e (UpdateTokenBalance n)
      then (True, s\<lparr>db_handle := True, db_tokenBalance := Some n, events := events s @ [DbCall (UpdateTokenBalance n) True]\<rparr>)
      else (False, s\<lparr>db_handle := db_handle s \<or> db_ok e OpenDatabase, events := events s @ [DbCall (UpdateTokenBalance n) False]\<rparr>))"
  by (simp add: updateTokenBalance_def withTransaction_total)

lemma updatePokemon_eq:
  "updatePokemon e p s =
     (if (db_handle s \<or> db_ok e OpenDatabase) \<and> db_ok e (UpdatePokemon p)
      then (True, s\<lparr>db_handle := True, db_pokemons := put_by id_pk p (db_pokemons s), events := events s @ [DbCall (UpdatePokemon p) True]\<rparr>)
      else (False, s\<lparr>db_handle := db_handle s \<or> db_ok e OpenDatabase, events := events s @ [DbCall (UpdatePokemon p) False]\<rparr>))"
  by (simp add: updatePokemon_def withTransaction_total)

lemma updateAchievement_eq:
  "updateAchievement e a s =
     (if (db_handle s \<or> db_ok e OpenDatabase) \<and> db_ok e (UpdateAchievement a)
      then (True, s\<lparr>db_handle := True, db_achievements := put_by id_ach a (db_achievements s), events := events s @ [DbCall (UpdateAchievement a) True]\<rparr>)
      else (False, s\<lparr>db_handle := db_handle s \<or> db_ok e OpenDatabase, events := events s @ [DbCall (UpdateAchievement a) False]\<rparr>))"
  by (simp add: updateAchievement_def withTransaction_total)

lemma updateDailyBonusStatus_eq:
  "updateDailyBonusStatus e t s =
     (if (db_handle s \<or> db_ok e OpenDatabase) \<and> db_ok e (UpdateDailyBonusStatus t)
      then (True, s\<lparr>db_handle := True, db_dailyBonus := Some t, events := events s @ [DbCall (UpdateDailyBonusStatus t) True]\<rparr>)
      else (False, s\<lparr>db_handle := db_handle s \<or> db_ok e OpenDatabase, events := events s @ [DbCall (UpdateDailyBonusStatus t) False]\<rparr>))"
  by (simp add: updateDailyBonusStatus_def withTransaction_total)

lemma addPokemon_eq:
  "addPokemon e p s =
     (if (db_handle s \<or> db_ok e OpenDatabase) \<and> db_ok e (AddPokemon p)
         \<and> find (\<lambda>q. id_pk q = id_pk p) (db_pokemons s) = None
      then (True, s\<lparr>db_handle := True, db_pokemons := db_pokemons s @ [p], events := events s @ [DbCall (AddPokemon p) True]\<rparr>)
      else (False, s\<lparr>db_handle := db_handle s \<or> db_ok e OpenDatabase, events := events s @ [DbCall (AddPokemon p) False]\<rparr>))"
  by (auto simp add: addPokemon_def withTransaction_def openDatabase_def db_handle_idem)

section \<open>The achievement evaluation\<close>

lemma unlockLoop_skip:
  "\<not> unlock_due cur ps d \<Longrightarrow>
     unlockLoop e ps cur (d # ds) acc s = unlockLoop e ps cur ds acc s"
  by (auto simp: unlock_due_def)

lemma unlockLoop_rejected:
  "unlock_due cur ps d \<Longrightarrow> \<not> fst (updateAchievement e (newAchievement e d) s) \<Longrightarrow>
     unlockLoop e ps cur (d # ds) acc s =
       (Inl (DbError (UpdateAchievement (newAchievement e d))),
        snd (updateAchievement e (newAchievement e d) s))"
  by (auto simp: unlock_due_def split: prod.splits)

lemma unlockLoop_resolved:
  "unlock_due cur ps d \<Longrightarrow> fst (updateAchievement e (newAchievement e d) s) \<Longrightarrow>
     unlockLoop e ps cur (d # ds) acc s =
       unlockLoop e ps cur ds (acc @ [newAchievement e d])
         (showMessage Success (Txt_achievement_unlocked (name_def d))
            (snd (updateAchievement e (newAchievement e d) s)))"
  by (auto simp: unlock_due_def split: prod.splits)

lemma unlockLoop_frame:
  "unlockLoop e ps cur defs acc s = (r, s') \<Longrightarrow>
     pokemons s' = pokemons s \<and> tokenBalance s' = tokenBalance s
     \<and> achievements s' = achievements s \<and> settings s' = settings s
     \<and> isLoading s' = isLoading s \<and> isGeneratingPokemon s' = isGeneratingPokemon s
     \<and> isModalOpen s' = isModalOpen s \<and> isModalConfirmLoading s' = isModalConfirmLoading s
     \<and> isDailyBonusModalOpen s' = isDailyBonusModalOpen s
     \<and> dailyBonusAmount s' = dailyBonusAmount s
     \<and> db_pokemons s' = db_pokemons s \<and> db_tokenBalance s' = db_tokenBalance s
     \<and> db_dailyBonus s' = db_dailyBonus s \<and> db_playerSettings s' = db_playerSettings s
     \<and> (db_handle s \<longrightarrow> db_handle s')"
proof (induction defs arbitrary: acc s)
  case Nil
  then show ?case by simp
next
  case (Cons d ds)
  then show ?case
    by (auto simp: updateAchievement_eq showMessage_def split: if_splits)
qed

lemma unlockLoop_events:
  "unlockLoop e ps cur defs acc s = (r, s') \<Longrightarrow>
     \<exists>evs. events s' = events s @ evs \<and> (\<forall>ev \<in> set evs. ach_event ev)"
proof (induction defs arbitrary: acc s)
  case Nil
  then show ?case by simp
next
  case (Cons d ds)
  let ?a = "newAchievement e d"
  consider (skip) "\<not> unlock_due cur ps d"
    | (rejected) "unlock_due cur ps d" "\<not> fst (updateAchievement e ?a s)"
    | (resolved) "unlock_due cur ps d" "fst (updateAchievement e ?a s)"
    by blast
  then show ?case
  proof cases
    case skip
    from Cons.prems have "unlockLoop e ps cur ds acc s = (r, s')"
      by (simp only: unlockLoop_skip [OF skip])
    then show ?thesis by (rule Cons.IH)
  next
    case rejected
    from Cons.prems have "s' = snd (updateAchievement e ?a s)"
      by (simp only: unlockLoop_rejected [OF rejected] prod.inject)
    then have "events s' = events s @ [DbCall (UpdateAchievement ?a) False]"
      using rejected(2) by (simp add: updateAchievement_eq split: if_splits)
    then show ?thesis by (simp add: ach_event_def)
  next
    case resolved
    let ?s1 = "showMessage Success (Txt_achievement_unlocked (name_def d))
                 (snd (updateAchievement e ?a s))"
    from Cons.prems
    have run: "unlockLoop e ps cur ds (acc @ [?a]) ?s1 = (r, s')"
      by (simp only: unlockLoop_resolved [OF resolved])
    have ev1: "events ?s1 = events s @ [DbCall (UpdateAchievement ?a) True,
                 ShowMessage Success (Txt_achievement_unlocked (name_def d))]"
      using resolved(2) by (simp add: updateAchievement_eq showMessage_def split: if_splits)
    from Cons.IH [OF run] obtain evs where
      evs: "events s' = events ?s1 @ evs" "\<forall>ev \<in> set evs. ach_event ev" by blast
    let ?new = "[DbCall (UpdateAchievement ?a) True,
                 ShowMessage Success (Txt_achievement_unlocked (name_def d))] @ evs"
    have "events s' = events s @ ?new" using evs(1) ev1 by simp
    moreover have "\<forall>ev \<in> set ?new. ach_event ev" using evs(2) by (simp add: ach_event_def)
    ultimately show ?thesis by blast
  qed
qed

lemma checkAndUnlockAchievements_frame:
  "checkAndUnlockAchievements e ps cur s = (r, s') \<Longrightarrow>
     pokemons s' = pokemons s \<and> tokenBalance s' = tokenBalance s
     \<and> settings s' = settings s
     \<and> isLoading s' = isLoading s \<and> isGeneratingPokemon s' = isGeneratingPokemon s
     \<and> isModalOpen s' = isModalOpen s \<and> isModalConfirmLoading s' = isModalConfirmLoading s
     \<and> isDailyBonusModalOpen s' = isDailyBonusModalOpen s
     \<and> dailyBonusAmount s' = dailyBonusAmount s
     \<and> db_pokemons s' = db_pokemons s \<and> db_tokenBalance s' = db_tokenBalance s
     \<and> db_dailyBonus s' = db_dailyBonus s \<and> db_playerSettings s' = db_playerSettings s
     \<and> (db_handle s \<longrightarrow> db_handle s')"
proof -
  assume run: "checkAndUnlockAchievements e ps cur s = (r, s')"
  obtain r1 s1 where loop: "unlockLoop e ps cur ALL_ACHIEVEMENTS [] s = (r1, s1)"
    by (cases "unlockLoop e ps cur ALL_ACHIEVEMENTS [] s")
  note fr = unlockLoop_frame [OF loop]
  from run loop have "s' = s1 \<or> (\<exists>l. s' = s1\<lparr>achievements := l\<rparr>)"
    by (auto simp: checkAndUnlockAchievements_def split: sum.splits if_splits)
  then show ?thesis
  proof (elim disjE exE)
    assume "s' = s1"
    with fr show ?thesis by simp
  next
    fix l assume "s' = s1\<lparr>achievements := l\<rparr>"
    with fr show ?thesis by simp
  qed
qed

lemma checkAndUnlockAchievements_events:
  "checkAndUnlockAchievements e ps cur s = (r, s') \<Longrightarrow>
     \<exists>evs. events s' = events s @ evs \<and> (\<forall>ev \<in> set evs. ach_event ev)"
proof -
  assume run: "checkAndUnlockAchievements e ps cur s = (r, s')"
  obtain r1 s1 where loop: "unlockLoop e ps cur ALL_ACHIEVEMENTS [] s = (r1, s1)"
    by (cases "unlockLoop e ps cur ALL_ACHIEVEMENTS [] s")
  from run loop have "events s' = events s1"
    by (auto simp: checkAndUnlockAchievements_def split: sum.splits if_splits)
  with unlockLoop_events [OF loop] show ?thesis by simp
qed

section \<open>What each store operation leaves in each field\<close>

lemma fst_updateTokenBalance:
  "fst (updateTokenBalance e n s) = ((db_handle s \<or> db_ok e OpenDatabase) \<and> db_ok e (UpdateTokenBalance n))"
  by (simp add: updateTokenBalance_eq)

lemma snd_updateTokenBalance:
  "pokemons (snd (updateTokenBalance e n s)) = pokemons s"
  "tokenBalance (snd (updateTokenBalance e n s)) = tokenBalance s"
  "achievements (snd (updateTokenBalance e n s)) = achievements s"
  "settings (snd (updateTokenBalance e n s)) = settings s"
  "isLoading (snd (updateTokenBalance e n s)) = isLoading s"
  "isGeneratingPokemon (snd (updateTokenBalance e n s)) = isGeneratingPokemon s"
  "message (snd (updateTokenBalance e n s)) = message s"
  "isModalOpen (snd (updateTokenBalance e n s)) = isModalOpen s"
  "isModalConfirmLoading (snd (updateTokenBalance e n s)) = isModalConfirmLoading s"
  "isDailyBonusModalOpen (snd (updateTokenBalance e n s)) = isDailyBonusModalOpen s"
  "dailyBonusAmount (snd (updateTokenBalance e n s)) = dailyBonusAmount s"
  "db_handle (snd (updateTokenBalance e n s)) = (db_handle s \<or> db_ok e OpenDatabase)"
  "db_pokemons (snd (updateTokenBalance e n s)) = db_pokemons s"
  "db_tokenBalance (snd (updateTokenBalance e n s)) = (if fst (updateTokenBalance e n s) then Some n else db_tokenBalance s)"
  "db_dailyBonus (snd (updateTokenBalance e n s)) = db_dailyBonus s"
  "db_playerSettings (snd (updateTokenBalance e n s)) = db_playerSettings s"
  "db_achievements (snd (updateTokenBalance e n s)) = db_achievements s"
  "events (snd (updateTokenBalance e n s)) = events s @ [DbCall (UpdateTokenBalance n) (fst (updateTokenBalance e n s))]"
  by (simp_all add: updateTokenBalance_eq)

lemma fst_updatePokemon:
  "fst (updatePokemon e p s) = ((db_handle s \<or> db_ok e OpenDatabase) \<and> db_ok e (UpdatePokemon p))"
  by (simp add: updatePokemon_eq)

lemma snd_updatePokemon:
  "pokemons (snd (updatePokemon e p s)) = pokemons s"
  "tokenBalance (snd (updatePokemon e p s)) = tokenBalance s"
  "achievements (snd (updatePokemon e p s)) = achievements s"
  "settings (snd (updatePokemon e p s)) = settings s"
  "isLoading (snd (updatePokemon e p s)) = isLoading s"
  "isGeneratingPokemon (snd (updatePokemon e p s)) = isGeneratingPokemon s"
  "message (snd (updatePokemon e p s)) = message s"
  "isModalOpen (snd (updatePokemon e p s)) = isModalOpen s"
  "isModalConfirmLoading (snd (updatePokemon e p s)) = isModalConfirmLoading s"
  "isDailyBonusModalOpen (snd (updatePokemon e p s)) = isDailyBonusModalOpen s"
  "dailyBonusAmount (snd (updatePokemon e p s)) = dailyBonusAmount s"
  "db_handle (snd (updatePokemon e p s)) = (db_handle s \<or> db_ok e OpenDatabase)"
  "db_pokemons (snd (updatePokemon e p s)) = (if fst (updatePokemon e p s) then put_by id_pk p (db_pokemons s) else db_pokemons s)"
  "db_tokenBalance (snd (updatePokemon e p s)) = db_tokenBalance s"
  "db_dailyBonus (snd (updatePokemon e p s)) = db_dailyBonus s"
  "db_playerSettings (snd (updatePokemon e p s)) = db_playerSettings s"
  "db_achievements (snd (updatePokemon e p s)) = db_achievements s"
  "events (snd (updatePokemon e p s)) = events s @ [DbCall (UpdatePokemon p) (fst (updatePokemon e p s))]"
  by (simp_all add: updatePokemon_eq)

lemma fst_updateAchievement:
  "fst (updateAchievement e a s) = ((db_handle s \<or> db_ok e OpenDatabase) \<and> db_ok e (UpdateAchievement a))"
  by (simp add: updateAchievement_eq)

lemma snd_updateAchievement:
  "pokemons (snd (updateAchievement e a s)) = pokemons s"
  "tokenBalance (snd (updateAchievement e a s)) = tokenBalance s"
  "achievements (snd (updateAchievement e a s)) = achievements s"
  "settings (snd (updateAchievement e a s)) = settings s"
  "isLoading (snd (updateAchievement e a s)) = isLoading s"
  "isGeneratingPokemon (snd (updateAchievement e a s)) = isGeneratingPokemon s"
  "message (snd (updateAchievement e a s)) = message s"
  "isModalOpen (snd (updateAchievement e a s)) = isModalOpen s"
  "isModalConfirmLoading (snd (updateAchievement e a s)) = isModalConfirmLoading s"
  "isDailyBonusModalOpen (snd (updateAchievement e a s)) = isDailyBonusModalOpen s"
  "dailyBonusAmount (snd (updateAchievement e a s)) = dailyBonusAmount s"
  "db_handle (snd (updateAchievement e a s)) = (db_handle s \<or> db_ok e OpenDatabase)"
  "db_pokemons (snd (updateAchievement e a s)) = db_pokemons s"
  "db_tokenBalance (snd (updateAchievement e a s)) = db_tokenBalance s"
  "db_dailyBonus (snd (updateAchievement e a s)) = db_dailyBonus s"
  "db_playerSettings (snd (updateAchievement e a s)) = db_playerSettings s"
  "db_achievements (snd (updateAchievement e a s)) = (if fst (updateAchievement e a s) then put_by id_ach a (db_achievements s) else db_achievements s)"
  "events (snd (updateAchievement e a s)) = events s @ [DbCall (UpdateAchievement a) (fst (updateAchievement e a s))]"
  by (simp_all add: updateAchievement_eq)

lemma fst_updateDailyBonusStatus:
  "fst (updateDailyBonusStatus e t s) = ((db_handle s \<or> db_ok e OpenDatabase) \<and> db_ok e (UpdateDailyBonusStatus t))"
  by (simp add: updateDailyBonusStatus_eq)

lemma snd_updateDailyBonusStatus:
  "pokemons (snd (updateDailyBonusStatus e t s)) = pokemons s"
  "tokenBalance (snd (updateDailyBonusStatus e t s)) = tokenBalance s"
  "achievements (snd (updateDailyBonusStatus e t s)) = achievements s"
  "settings (snd (updateDailyBonusStatus e t s)) = settings s"
  "isLoading (snd (updateDailyBonusStatus e t s)) = isLoading s"
  "isGeneratingPokemon (snd (updateDailyBonusStatus e t s)) = isGeneratingPokemon s"
  "message (snd (updateDailyBonusStatus e t s)) = message s"
  "isModalOpen (snd (updateDailyBonusStatus e t s)) = isModalOpen s"
  "isModalConfirmLoading (snd (updateDailyBonusStatus e t s)) = isModalConfirmLoading s"
  "isDailyBonusModalOpen (snd (updateDailyBonusStatus e t s)) = isDailyBonusModalOpen s"
  "dailyBonusAmount (snd (updateDailyBonusStatus e t s)) = dailyBonusAmount s"
  "db_handle (snd (updateDailyBonusStatus e t s)) = (db_handle s \<or> db_ok e OpenDatabase)"
  "db_pokemons (snd (updateDailyBonusStatus e t s)) = db_pokemons s"
  "db_tokenBalance (snd (updateDailyBonusStatus e t s)) = db_tokenBalance s"
  "db_dailyBonus (snd (updateDailyBonusStatus e t s)) = (if fst (updateDailyBonusStatus e t s) then Some t else db_dailyBonus s)"
  "db_playerSettings (snd (updateDailyBonusStatus e t s)) = db_playerSettings s"
  "db_achievements (snd (updateDailyBonusStatus e t s)) = db_achievements s"
  "events (snd (updateDailyBonusStatus e t s)) = events s @ [DbCall (UpdateDailyBonusStatus t) (fst (updateDailyBonusStatus e t s))]"
  by (simp_all add: updateDailyBonusStatus_eq)

lemma fst_addPokemon:
  "fst (addPokemon e p s) = ((db_handle s \<or> db_ok e OpenDatabase) \<and> db_ok e (AddPokemon p) \<and> find (\<lambda>q. id_pk q = id_pk p) (db_pokemons s) = None)"
  by (simp add: addPokemon_eq)

lemma snd_addPokemon:
  "pokemons (snd (addPokemon e p s)) = pokemons s"
  "tokenBalance (snd (addPokemon e p s)) = tokenBalance s"
  "achievements (snd (addPokemon e p s)) = achievements s"
  "settings (snd (addPokemon e p s)) = settings s"
  "isLoading (snd (addPokemon e p s)) = isLoading s"
  "isGeneratingPokemon (snd (addPokemon e p s)) = isGeneratingPokemon s"
  "message (snd (addPokemon e p s)) = message s"
  "isModalOpen (snd (addPokemon e p s)) = isModalOpen s"
  "isModalConfirmLoading (snd (addPokemon e p s)) = isModalConfirmLoading s"
  "isDailyBonusModalOpen (snd (addPokemon e p s)) = isDailyBonusModalOpen s"
  "dailyBonusAmount (snd (addPokemon e p s)) = dailyBonusAmount s"
  "db_handle (snd (addPokemon e p s)) = (db_handle s \<or> db_ok e OpenDatabase)"
  "db_pokemons (snd (addPokemon e p s)) = (if fst (addPokemon e p s) then db_pokemons s @ [p] else db_pokemons s)"
  "db_tokenBalance (snd (addPokemon e p s)) = db_tokenBalance s"
  "db_dailyBonus (snd (addPokemon e p s)) = db_dailyBonus s"
  "db_playerSettings (snd (addPokemon e p s)) = db_playerSettings s"
  "db_achievements (snd (addPokemon e p s)) = db_achievements s"
  "events (snd (addPokemon e p s)) = events s @ [DbCall (AddPokemon p) (fst (addPokemon e p s))]"
  by (simp_all add: addPokemon_eq)

lemma showMessage_sel:
  "pokemons (showMessage ty txt s) = pokemons s"
  "tokenBalance (showMessage ty txt s) = tokenBalance s"
  "achievements (showMessage ty txt s) = achievements s"
  "settings (showMessage ty txt s) = settings s"
  "isLoading (showMessage ty txt s) = isLoading s"
  "isGeneratingPokemon (showMessage ty txt s) = isGeneratingPokemon s"
  "message (showMessage ty txt s) = Some \<lparr> type_msg = ty, text_msg = txt \<rparr>"
  "isModalOpen (showMessage ty txt s) = isModalOpen s"
  "isModalConfirmLoading (showMessage ty txt s) = isModalConfirmLoading s"
  "isDailyBonusModalOpen (showMessage ty txt s) = isDailyBonusModalOpen s"
  "dailyBonusAmount (showMessage ty txt s) = dailyBonusAmount s"
  "db_handle (showMessage ty txt s) = db_handle s"
  "db_pokemons (showMessage ty txt s) = db_pokemons s"
  "db_tokenBalance (showMessage ty txt s) = db_tokenBalance s"
  "db_dailyBonus (showMessage ty txt s) = db_dailyBonus s"
  "db_playerSettings (showMessage ty txt s) = db_playerSettings s"
  "db_achievements (showMessage ty txt s) = db_achievements s"
  "events (showMessage ty txt s) = events s @ [ShowMessage ty txt]"
  by (simp_all add: showMessage_def)

lemmas store_sel = snd_updateTokenBalance snd_updatePokemon snd_updateAchievement
  snd_updateDailyBonusStatus snd_addPokemon showMessage_sel

lemmas store_fst = fst_updateTokenBalance fst_updatePokemon fst_updateAchievement
  fst_updateDailyBonusStatus fst_addPokemon

lemma snd_checkAndUnlockAchievements:
  "pokemons (snd (checkAndUnlockAchievements e ps cur s)) = pokemons s"
  "tokenBalance (snd (checkAndUnlockAchievements e ps cur s)) = tokenBalance s"
  "settings (snd (checkAndUnlockAchievements e ps cur s)) = settings s"
  "isLoading (snd (checkAndUnlockAchievements e ps cur s)) = isLoading s"
  "isGeneratingPokemon (snd (checkAndUnlockAchievements e ps cur s)) = isGeneratingPokemon s"
  "isModalOpen (snd (checkAndUnlockAchievements e ps cur s)) = isModalOpen s"
  "isModalConfirmLoading (snd (checkAndUnlockAchievements e ps cur s)) = isModalConfirmLoading s"
  "isDailyBonusModalOpen (snd (checkAndUnlockAchievements e ps cur s)) = isDailyBonusModalOpen s"
  "dailyBonusAmount (snd (checkAndUnlockAchievements e ps cur s)) = dailyBonusAmount s"
  "db_pokemons (snd (checkAndUnlockAchievements e ps cur s)) = db_pokemons s"
  "db_tokenBalance (snd (checkAndUnlockAchievements e ps cur s)) = db_tokenBalance s"
  "db_dailyBonus (snd (checkAndUnlockAchievements e ps cur s)) = db_dailyBonus s"
  "db_playerSettings (snd (checkAndUnlockAchievements e ps cur s)) = db_playerSettings s"
  using checkAndUnlockAchievements_frame
          [of e ps cur s "fst (checkAndUnlockAchievements e ps cur s)"
              "snd (checkAndUnlockAchievements e ps cur s)"]
  by simp_all

lemma events_checkAndUnlockAchievements:
  "events (snd (checkAndUnlockAchievements e ps cur s)) = events s @ ach_events e ps cur s"
  using checkAndUnlockAchievements_events
          [of e ps cur s "fst (checkAndUnlockAchievements e ps cur s)"
              "snd (checkAndUnlockAchievements e ps cur s)"]
  by (auto simp: ach_events_def)

lemma ach_events_only:
  "ev \<in> set (ach_events e ps cur s) \<Longrightarrow> ach_event ev"
  using checkAndUnlockAchievements_events
          [of e ps cur s "fst (checkAndUnlockAchievements e ps cur s)"
              "snd (checkAndUnlockAchievements e ps cur s)"]
  by (auto simp: ach_events_def)

lemma ach_events_no_store_write:
  "DbCall (UpdateTokenBalance n) ok \<notin> set (ach_events e ps cur s)"
  "DbCall (UpdatePokemon p) ok \<notin> set (ach_events e ps cur s)"
  "DbCall (AddPokemon p) ok \<notin> set (ach_events e ps cur s)"
  "ApiCall r \<notin> set (ach_events e ps cur s)"
  "ShowMessage Error txt \<notin> set (ach_events e ps cur s)"
  "ShowMessage Warning txt \<notin> set (ach_events e ps cur s)"
proof -
  have "\<not> ach_event (DbCall (UpdateTokenBalance n) ok)" by (simp add: ach_event_def)
  then show "DbCall (UpdateTokenBalance n) ok \<notin> set (ach_events e ps cur s)"
    using ach_events_only by blast
  have "\<not> ach_event (DbCall (UpdatePokemon p) ok)" by (simp add: ach_event_def)
  then show "DbCall (UpdatePokemon p) ok \<notin> set (ach_events e ps cur s)"
    using ach_events_only by blast
  have "\<not> ach_event (DbCall (AddPokemon p) ok)" by (simp add: ach_event_def)
  then show "DbCall (AddPokemon p) ok \<notin> set (ach_events e ps cur s)"
    using ach_events_only by blast
  have "\<not> ach_event (ApiCall r)" by (simp add: ach_event_def)
  then show "ApiCall r \<notin> set (ach_events e ps cur s)"
    using ach_events_only by blast
  have "\<not> ach_event (ShowMessage Error txt)" by (simp add: ach_event_def)
  then show "ShowMessage Error txt \<notin> set (ach_events e ps cur s)"
    using ach_events_only by blast
  have "\<not> ach_event (ShowMessage Warning txt)" by (simp add: ach_event_def)
  then show "ShowMessage Warning txt \<notin> set (ach_events e ps cur s)"
    using ach_events_only by blast
qed

lemma db_handle_checkAndUnlockAchievements:
  "db_handle s \<Longrightarrow> db_handle (snd (checkAndUnlockAchievements e ps cur s))"
  using checkAndUnlockAchievements_frame
          [of e ps cur s "fst (checkAndUnlockAchievements e ps cur s)"
              "snd (checkAndUnlockAchievements e ps cur s)"]
  by simp

lemma ach_event_simps:
  "ach_event (DbCall (UpdateAchievement a) ok)"
  "ach_event (ShowMessage Success txt)"
  "\<not> ach_event (DbCall (UpdateTokenBalance n) ok)"
  "\<not> ach_event (DbCall (UpdatePokemon p) ok)"
  "\<not> ach_event (DbCall (AddPokemon p) ok)"
  "\<not> ach_event (ApiCall r)"
  "\<not> ach_event (ShowMessage Error txt)"
  "\<not> ach_event (ShowMessage Warning txt)"
  by (simp_all add: ach_event_def)

lemmas run_simps = Let_def case_prod_beta store_fst store_sel
  snd_checkAndUnlockAchievements events_checkAndUnlockAchievements
  db_handle_checkAndUnlockAchievements

section \<open>Resale and purchase\<close>

lemma find_put_by:
  "find (\<lambda>q. key q = key v) (put_by key v xs) = Some v"
  by (induction xs) auto

lemma find_put_by_other:
  "k \<noteq> key v \<Longrightarrow> find (\<lambda>q. key q = k) (put_by key v xs) = find (\<lambda>q. key q = k) xs"
  by (induction xs) auto

lemma find_put_by_id_pk:
  "id_pk p' = id_pk p \<Longrightarrow> find (\<lambda>q. id_pk q = id_pk p) (put_by id_pk p' xs) = Some p'"
  using find_put_by [of id_pk p' xs] by simp

lemma resell_events_start:
  "\<exists>ok rest.
     events (handleResellConfirmation_onConfirm e pokemon (handleResellConfirmation pokemon s))
       = events s @ DbCall (UpdatePokemon (pokemon\<lparr>status := RESOLD\<rparr>)) ok # rest"
  by (auto simp add: handleResellConfirmation_onConfirm_def handleResellConfirmation_def
        handleResellConfirmation_try_def run_simps split: option.splits)

lemma buy_events_start:
  "getBuyPrice (rarity pokemon) \<le> tokenBalance s \<Longrightarrow>
   \<exists>ok rest.
     events (handleBuyPokemon e pokemon s)
       = events s @ DbCall (UpdatePokemon (pokemon\<lparr>status := OWNED\<rparr>)) ok # rest"
  by (auto simp add: handleBuyPokemon_def run_simps)

lemma resell_balance_rejected:
  assumes "db_handle s \<or> db_ok e OpenDatabase"
    and "db_ok e (UpdatePokemon (pokemon\<lparr>status := RESOLD\<rparr>))"
    and "\<not> db_ok e (UpdateTokenBalance (tokenBalance s + getResellValue (rarity pokemon)))"
  shows "events (handleResellConfirmation_onConfirm e pokemon (handleResellConfirmation pokemon s))
           = events s @ [DbCall (UpdatePokemon (pokemon\<lparr>status := RESOLD\<rparr>)) True,
               DbCall (UpdateTokenBalance (tokenBalance s + getResellValue (rarity pokemon))) False,
               ShowMessage Error Txt_resell_failed]"
    "db_pokemons (handleResellConfirmation_onConfirm e pokemon (handleResellConfirmation pokemon s))
           = put_by id_pk (pokemon\<lparr>status := RESOLD\<rparr>) (db_pokemons s)"
    "db_tokenBalance (handleResellConfirmation_onConfirm e pokemon (handleResellConfirmation pokemon s))
           = db_tokenBalance s"
    "tokenBalance (handleResellConfirmation_onConfirm e pokemon (handleResellConfirmation pokemon s))
           = tokenBalance s"
    "pokemons (handleResellConfirmation_onConfirm e pokemon (handleResellConfirmation pokemon s))
           = pokemons s"
  using assms
  by (simp_all add: handleResellConfirmation_onConfirm_def handleResellConfirmation_def
        handleResellConfirmation_try_def run_simps)

lemma buy_balance_rejected:
  assumes "getBuyPrice (rarity pokemon) \<le> tokenBalance s"
    and "db_handle s \<or> db_ok e OpenDatabase"
    and "db_ok e (UpdatePokemon (pokemon\<lparr>status := OWNED\<rparr>))"
    and "\<not> db_ok e (UpdateTokenBalance (tokenBalance s - getBuyPrice (rarity pokemon)))"
  shows "events (handleBuyPokemon e pokemon s)
           = events s @ [DbCall (UpdatePokemon (pokemon\<lparr>status := OWNED\<rparr>)) True,
               DbCall (UpdateTokenBalance (tokenBalance s - getBuyPrice (rarity pokemon))) False,
               ShowMessage Error Txt_buy_failed]"
    "db_pokemons (handleBuyPokemon e pokemon s)
           = put_by id_pk (pokemon\<lparr>status := OWNED\<rparr>) (db_pokemons s)"
    "db_tokenBalance (handleBuyPokemon e pokemon s) = db_tokenBalance s"
    "tokenBalance (handleBuyPokemon e pokemon s) = tokenBalance s"
    "pokemons (handleBuyPokemon e pokemon s) = pokemons s"
  using assms
  by (simp_all add: handleBuyPokemon_def run_simps)

lemma resell_written:
  assumes "db_handle s \<or> db_ok e OpenDatabase"
    and "db_ok e (UpdatePokemon (pokemon\<lparr>status := RESOLD\<rparr>))"
    and "db_ok e (UpdateTokenBalance (tokenBalance s + getResellValue (rarity pokemon)))"
  shows "db_pokemons (handleResellConfirmation_onConfirm e pokemon (handleResellConfirmation pokemon s))
           = put_by id_pk (pokemon\<lparr>status := RESOLD\<rparr>) (db_pokemons s)"
    "db_tokenBalance (handleResellConfirmation_onConfirm e pokemon (handleResellConfirmation pokemon s))
           = Some (tokenBalance s + getResellValue (rarity pokemon))"
    "tokenBalance (handleResellConfirmation_onConfirm e pokemon (handleResellConfirmation pokemon s))
           = tokenBalance s + getResellValue (rarity pokemon)"
    "\<exists>rest. events (handleResellConfirmation_onConfirm e pokemon (handleResellConfirmation pokemon s))
           = events s @ [DbCall (UpdatePokemon (pokemon\<lparr>status := RESOLD\<rparr>)) True,
               DbCall (UpdateTokenBalance (tokenBalance s + getResellValue (rarity pokemon))) True]
               @ rest"
  using assms
  by (simp_all add: handleResellConfirmation_onConfirm_def handleResellConfirmation_def
        handleResellConfirmation_try_def run_simps split: option.splits)

section \<open>The paths of a generation attempt\<close>

lemma generate_debit_rejected:
  assumes "GENERATION_COST \<le> tokenBalance s"
    and "\<not> ((db_handle s \<or> db_ok e OpenDatabase)
            \<and> db_ok e (UpdateTokenBalance (tokenBalance s - GENERATION_COST)))"
  shows "events (snd (handleGeneratePokemon e s))
           = events s @ [DbCall (UpdateTokenBalance (tokenBalance s - GENERATION_COST)) False,
               DbCall (UpdateTokenBalance (tokenBalance s))
                 ((db_handle s \<or> db_ok e OpenDatabase) \<and> db_ok e (UpdateTokenBalance (tokenBalance s)))]
             @ (if (db_handle s \<or> db_ok e OpenDatabase) \<and> db_ok e (UpdateTokenBalance (tokenBalance s))
                then [ShowMessage Error (Txt_generation_failed
                        (DbError (UpdateTokenBalance (tokenBalance s - GENERATION_COST))))]
                else [])"
    "tokenBalance (snd (handleGeneratePokemon e s)) = tokenBalance s"
    "db_tokenBalance (snd (handleGeneratePokemon e s))
       = (if (db_handle s \<or> db_ok e OpenDatabase) \<and> db_ok e (UpdateTokenBalance (tokenBalance s))
          then Some (tokenBalance s) else db_tokenBalance s)"
    "pokemons (snd (handleGeneratePokemon e s)) = pokemons s"
    "db_pokemons (snd (handleGeneratePokemon e s)) = db_pokemons s"
  using assms
  by (auto simp add: handleGeneratePokemon_def handleGeneratePokemon_try_def run_simps)

lemma generate_remote_failed:
  assumes "GENERATION_COST \<le> tokenBalance s"
    and "db_handle s \<or> db_ok e OpenDatabase"
    and "db_ok e (UpdateTokenBalance (tokenBalance s - GENERATION_COST))"
    and "fst (generatePokemon (remote e)) = Inl err"
  shows "events (snd (handleGeneratePokemon e s))
           = events s @ [DbCall (UpdateTokenBalance (tokenBalance s - GENERATION_COST)) True,
               ApiCall (Inl err),
               DbCall (UpdateTokenBalance (tokenBalance s)) (db_ok e (UpdateTokenBalance (tokenBalance s)))]
             @ (if db_ok e (UpdateTokenBalance (tokenBalance s))
                then [ShowMessage Error (Txt_generation_failed (ApiError err))]
                else [])"
    "tokenBalance (snd (handleGeneratePokemon e s)) = tokenBalance s"
    "db_tokenBalance (snd (handleGeneratePokemon e s))
       = (if db_ok e (UpdateTokenBalance (tokenBalance s))
          then Some (tokenBalance s) else Some (tokenBalance s - GENERATION_COST))"
    "pokemons (snd (handleGeneratePokemon e s)) = pokemons s"
    "db_pokemons (snd (handleGeneratePokemon e s)) = db_pokemons s"
    "fst (handleGeneratePokemon e s)
       = (if db_ok e (UpdateTokenBalance (tokenBalance s)) then None
          else Some (DbError (UpdateTokenBalance (tokenBalance s))))"
    "message (snd (handleGeneratePokemon e s))
       = (if db_ok e (UpdateTokenBalance (tokenBalance s))
          then Some \<lparr> type_msg = Error, text_msg = Txt_generation_failed (ApiError err) \<rparr>
          else message s)"
  using assms
  by (auto simp add: handleGeneratePokemon_def handleGeneratePokemon_try_def run_simps)

lemma generate_add_rejected:
  assumes "GENERATION_COST \<le> tokenBalance s"
    and "db_handle s \<or> db_ok e OpenDatabase"
    and "db_ok e (UpdateTokenBalance (tokenBalance s - GENERATION_COST))"
    and "fst (generatePokemon (remote e)) = Inr p"
    and "\<not> (db_ok e (AddPokemon p) \<and> find (\<lambda>q. id_pk q = id_pk p) (db_pokemons s) = None)"
  shows "events (snd (handleGeneratePokemon e s))
           = events s @ [DbCall (UpdateTokenBalance (tokenBalance s - GENERATION_COST)) True,
               ApiCall (Inr p), DbCall (AddPokemon p) False,
               DbCall (UpdateTokenBalance (tokenBalance s)) (db_ok e (UpdateTokenBalance (tokenBalance s)))]
             @ (if db_ok e (UpdateTokenBalance (tokenBalance s))
                then [ShowMessage Error (Txt_generation_failed (DbError (AddPokemon p)))]
                else [])"
    "tokenBalance (snd (handleGeneratePokemon e s)) = tokenBalance s"
    "db_tokenBalance (snd (handleGeneratePokemon e s))
       = (if db_ok e (UpdateTokenBalance (tokenBalance s))
          then Some (tokenBalance s) else Some (tokenBalance s - GENERATION_COST))"
    "pokemons (snd (handleGeneratePokemon e s)) = pokemons s"
    "db_pokemons (snd (handleGeneratePokemon e s)) = db_pokemons s"
    "fst (handleGeneratePokemon e s)
       = (if db_ok e (UpdateTokenBalance (tokenBalance s)) then None
          else Some (DbError (UpdateTokenBalance (tokenBalance s))))"
    "message (snd (handleGeneratePokemon e s))
       = (if db_ok e (UpdateTokenBalance (tokenBalance s))
          then Some \<lparr> type_msg = Error, text_msg = Txt_generation_failed (DbError (AddPokemon p)) \<rparr>
          else message s)"
  using assms
  by (auto simp add: handleGeneratePokemon_def handleGeneratePokemon_try_def run_simps)

lemma unlockLoop_thrown:
  "unlockLoop e ps cur defs acc s = (Inl err, s') \<Longrightarrow>
     \<exists>a evs. err = DbError (UpdateAchievement a)
        \<and> events s' = events s @ evs @ [DbCall (UpdateAchievement a) False]"
proof (induction defs arbitrary: acc s)
  case Nil
  then show ?case by simp
next
  case (Cons d ds)
  let ?a = "newAchievement e d"
  consider (skip) "\<not> unlock_due cur ps d"
    | (rejected) "unlock_due cur ps d" "\<not> fst (updateAchievement e ?a s)"
    | (resolved) "unlock_due cur ps d" "fst (updateAchievement e ?a s)"
    by blast
  then show ?case
  proof cases
    case skip
    from Cons.prems have "unlockLoop e ps cur ds acc s = (Inl err, s')"
      by (simp only: unlockLoop_skip [OF skip])
    then show ?thesis by (rule Cons.IH)
  next
    case rejected
    from Cons.prems have "err = DbError (UpdateAchievement ?a)"
      and "s' = snd (updateAchievement e ?a s)"
      by (simp_all only: unlockLoop_rejected [OF rejected] prod.inject sum.inject)
    moreover have "events (snd (updateAchievement e ?a s))
                     = events s @ [] @ [DbCall (UpdateAchievement ?a) False]"
      using rejected(2) by (simp add: store_sel)
    ultimately show ?thesis by blast
  next
    case resolved
    let ?s1 = "showMessage Success (Txt_achievement_unlocked (name_def d))
                 (snd (updateAchievement e ?a s))"
    from Cons.prems
    have run: "unlockLoop e ps cur ds (acc @ [?a]) ?s1 = (Inl err, s')"
      by (simp only: unlockLoop_resolved [OF resolved])
    have ev1: "events ?s1 = events s @ [DbCall (UpdateAchievement ?a) True,
                 ShowMessage Success (Txt_achievement_unlocked (name_def d))]"
      using resolved(2) by (simp add: store_sel)
    from Cons.IH [OF run] obtain a evs where
      evs: "err = DbError (UpdateAchievement a)"
           "events s' = events ?s1 @ evs @ [DbCall (UpdateAchievement a) False]" by blast
    have "events s' = events s @ ([DbCall (UpdateAchievement ?a) True,
                 ShowMessage Success (Txt_achievement_unlocked (name_def d))] @ evs)
               @ [DbCall (UpdateAchievement a) False]"
      using evs(2) ev1 by simp
    with evs(1) show ?thesis by blast
  qed
qed

lemma checkAndUnlockAchievements_thrown:
  assumes "fst (checkAndUnlockAchievements e ps cur s) = Some err"
  shows "\<exists>a evs. err = DbError (UpdateAchievement a)
           \<and> ach_events e ps cur s = evs @ [DbCall (UpdateAchievement a) False]"
proof -
  obtain r1 s1 where loop: "unlockLoop e ps cur ALL_ACHIEVEMENTS [] s = (r1, s1)"
    by (cases "unlockLoop e ps cur ALL_ACHIEVEMENTS [] s")
  from assms loop have r1: "r1 = Inl err"
    and s1: "snd (checkAndUnlockAchievements e ps cur s) = s1"
    by (auto simp: checkAndUnlockAchievements_def split: sum.splits)
  from unlockLoop_thrown [OF loop [unfolded r1]] obtain a evs where
    "err = DbError (UpdateAchievement a)"
    "events s1 = events s @ evs @ [DbCall (UpdateAchievement a) False]" by blast
  then show ?thesis by (auto simp: ach_events_def s1)
qed

lemma generate_added_items:
  assumes "GENERATION_COST \<le> tokenBalance s"
    and "db_handle s \<or> db_ok e OpenDatabase"
    and "db_ok e (UpdateTokenBalance (tokenBalance s - GENERATION_COST))"
    and "fst (generatePokemon (remote e)) = Inr p"
    and "db_ok e (AddPokemon p)" and "find (\<lambda>q. id_pk q = id_pk p) (db_pokemons s) = None"
  shows "pokemons (snd (handleGeneratePokemon e s)) = sortNewestFirst (p # pokemons s)"
    "db_pokemons (snd (handleGeneratePokemon e s)) = db_pokemons s @ [p]"
  using assms
  by (auto simp add: handleGeneratePokemon_def handleGeneratePokemon_try_def run_simps
        split: option.splits)

lemma generate_added:
  assumes "GENERATION_COST \<le> tokenBalance s"
    and "db_handle s \<or> db_ok e OpenDatabase"
    and "db_ok e (UpdateTokenBalance (tokenBalance s - GENERATION_COST))"
    and "fst (generatePokemon (remote e)) = Inr p"
    and "db_ok e (AddPokemon p)" and "find (\<lambda>q. id_pk q = id_pk p) (db_pokemons s) = None"
  shows "\<exists>evs. (\<forall>ev \<in> set evs. ach_event ev)
       \<and> (fst (handleGeneratePokemon e s) = None
            \<and> events (snd (handleGeneratePokemon e s))
                = events s @ [DbCall (UpdateTokenBalance (tokenBalance s - GENERATION_COST)) True,
                    ApiCall (Inr p), DbCall (AddPokemon p) True] @ evs
                  @ [ShowMessage Success (Txt_generated (name_pk p))]
            \<and> tokenBalance (snd (handleGeneratePokemon e s)) = tokenBalance s - GENERATION_COST
            \<and> db_tokenBalance (snd (handleGeneratePokemon e s))
                = Some (tokenBalance s - GENERATION_COST)
          \<or> (\<exists>a pre. evs = pre @ [DbCall (UpdateAchievement a) False]
            \<and> events (snd (handleGeneratePokemon e s))
                = events s @ [DbCall (UpdateTokenBalance (tokenBalance s - GENERATION_COST)) True,
                    ApiCall (Inr p), DbCall (AddPokemon p) True] @ evs
                  @ [DbCall (UpdateTokenBalance (tokenBalance s))
                       (db_ok e (UpdateTokenBalance (tokenBalance s)))]
                  @ (if db_ok e (UpdateTokenBalance (tokenBalance s))
                     then [ShowMessage Error
                             (Txt_generation_failed (DbError (UpdateAchievement a)))]
                     else [])
            \<and> tokenBalance (snd (handleGeneratePokemon e s)) = tokenBalance s
            \<and> db_tokenBalance (snd (handleGeneratePokemon e s))
                = (if db_ok e (UpdateTokenBalance (tokenBalance s))
                   then Some (tokenBalance s) else Some (tokenBalance s - GENERATION_COST))))"
    (is "\<exists>evs. ?P evs")
proof -
  let ?ups = "sortNewestFirst (p # pokemons s)"
  let ?n = "tokenBalance s - GENERATION_COST"
  let ?S = "(snd (addPokemon e p
               ((snd (updateTokenBalance e ?n
                  (s\<lparr>isGeneratingPokemon := True, tokenBalance := ?n\<rparr>)))
                \<lparr>events := events (snd (updateTokenBalance e ?n
                  (s\<lparr>isGeneratingPokemon := True, tokenBalance := ?n\<rparr>))) @ [ApiCall (Inr p)]\<rparr>)))
             \<lparr>pokemons := ?ups\<rparr>"
  show ?thesis
  proof (cases "fst (checkAndUnlockAchievements e ?ups (achievements s) ?S)")
    case None
    with assms have "?P (ach_events e ?ups (achievements s) ?S)"
      by (auto simp add: handleGeneratePokemon_def handleGeneratePokemon_try_def run_simps
            ach_events_only ach_event_simps)
    then show ?thesis by blast
  next
    case (Some err)
    from checkAndUnlockAchievements_thrown [OF Some] obtain a pre where
      a: "err = DbError (UpdateAchievement a)"
         "ach_events e ?ups (achievements s) ?S = pre @ [DbCall (UpdateAchievement a) False]"
      by blast
    have "\<forall>ev \<in> set (ach_events e ?ups (achievements s) ?S). ach_event ev"
      using ach_events_only by blast
    with a(2) have pre: "\<forall>ev \<in> set pre. ach_event ev" by simp
    from pre a Some assms have "?P (ach_events e ?ups (achievements s) ?S)"
      by (auto simp add: handleGeneratePokemon_def handleGeneratePokemon_try_def run_simps
            ach_event_simps)
    then show ?thesis by blast
  qed
qed

lemma replay_balance_append:
  "replay_balance (xs @ ys) b = replay_balance ys (replay_balance xs b)"
  by (induction xs b rule: replay_balance.induct) simp_all

lemma replay_balance_ach:
  "\<forall>ev \<in> set evs. ach_event ev \<Longrightarrow> replay_balance evs b = b"
  by (induction evs b rule: replay_balance.induct) (simp_all add: ach_event_def)

lemma replay_balance_simps:
  "replay_balance (DbCall (UpdateTokenBalance n) ok # evs) b
     = replay_balance evs (if ok then Some n else b)"
  "replay_balance (DbCall (AddPokemon p) ok # evs) b = replay_balance evs b"
  "replay_balance (DbCall (UpdateAchievement a) ok # evs) b = replay_balance evs b"
  "replay_balance (ApiCall r # evs) b = replay_balance evs b"
  "replay_balance (ShowMessage ty txt # evs) b = replay_balance evs b"
  by (cases ok; simp)+

lemma ach_event_notin:
  assumes "\<forall>ev \<in> set evs. ach_event ev"
  shows "ApiCall r \<notin> set evs" "DbCall (AddPokemon p) ok \<notin> set evs"
    "DbCall (UpdateTokenBalance n) ok \<notin> set evs"
  using assms ach_event_simps by blast+

lemma compensation_after_failure:
  assumes x: "failed_step x"
    and post: "\<forall>ev \<in> set post. \<not> is_db_call ev \<and> \<not> is_api_call ev"
    and pre: "\<forall>ok'. DbCall c ok' \<notin> set (pre @ [x])"
    and shape: "evs = pre @ x # DbCall c rf # post"
  shows "\<forall>ok. DbCall c ok \<in> set evs \<longrightarrow>
           (\<exists>pre' x' post'. evs = pre' @ x' # DbCall c ok # post' \<and> failed_step x'
              \<and> (\<forall>ev \<in> set post'. \<not> is_db_call ev \<and> \<not> is_api_call ev))"
proof (intro allI impI)
  fix ok assume mem: "DbCall c ok \<in> set evs"
  have "DbCall c ok \<notin> set post" using post by (auto simp: is_db_call_def)
  with mem pre shape have "ok = rf" by auto
  with x post shape show "\<exists>pre' x' post'. evs = pre' @ x' # DbCall c ok # post' \<and> failed_step x'
              \<and> (\<forall>ev \<in> set post'. \<not> is_db_call ev \<and> \<not> is_api_call ev)"
    by blast
qed

lemma message_only:
  "\<forall>ev \<in> set (if c then [ShowMessage ty txt] else []). \<not> is_db_call ev \<and> \<not> is_api_call ev"
  by (simp add: is_db_call_def is_api_call_def)

lemma generate_shape:
  assumes "GENERATION_COST \<le> tokenBalance s"
  shows "\<exists>debited rf msg rest.
      events (snd (handleGeneratePokemon e s))
        = events s @ DbCall (UpdateTokenBalance (tokenBalance s - GENERATION_COST)) debited # rest
      \<and> db_tokenBalance (snd (handleGeneratePokemon e s))
        = replay_balance
            (DbCall (UpdateTokenBalance (tokenBalance s - GENERATION_COST)) debited # rest)
            (db_tokenBalance s)
      \<and> (\<forall>ev \<in> set msg. \<not> is_db_call ev \<and> \<not> is_api_call ev)
      \<and> generation_shape (UpdateTokenBalance (tokenBalance s)) debited rf msg rest"
    (is "\<exists>debited rf msg rest. ?P debited rf msg rest")
proof -
  let ?B = "tokenBalance s"
  let ?debit = "UpdateTokenBalance (?B - GENERATION_COST)"
  let ?refund = "UpdateTokenBalance ?B"
  let ?s' = "snd (handleGeneratePokemon e s)"
  consider
      (debit_rejected) "\<not> ((db_handle s \<or> db_ok e OpenDatabase) \<and> db_ok e ?debit)"
    | (remote_failed) err where "db_handle s \<or> db_ok e OpenDatabase" "db_ok e ?debit"
        "fst (generatePokemon (remote e)) = Inl err"
    | (add_rejected) p where "db_handle s \<or> db_ok e OpenDatabase" "db_ok e ?debit"
        "fst (generatePokemon (remote e)) = Inr p"
        "\<not> (db_ok e (AddPokemon p) \<and> find (\<lambda>q. id_pk q = id_pk p) (db_pokemons s) = None)"
    | (added) p where "db_handle s \<or> db_ok e OpenDatabase" "db_ok e ?debit"
        "fst (generatePokemon (remote e)) = Inr p"
        "db_ok e (AddPokemon p)" "find (\<lambda>q. id_pk q = id_pk p) (db_pokemons s) = None"
    by (cases "fst (generatePokemon (remote e))") blast+
  then show ?thesis
  proof cases
    case debit_rejected
    let ?rf = "(db_handle s \<or> db_ok e OpenDatabase) \<and> db_ok e ?refund"
    let ?msg = "if ?rf then [ShowMessage Error (Txt_generation_failed (DbError ?debit))] else []"
    note f = generate_debit_rejected [OF assms debit_rejected]
    have "?P False ?rf ?msg (DbCall ?refund ?rf # ?msg)"
      using f(1,3)
      by (simp add: replay_balance_simps generation_shape_def is_db_call_def is_api_call_def)
    then show ?thesis by blast
  next
    case remote_failed
    let ?rf = "db_ok e ?refund"
    let ?msg = "if ?rf then [ShowMessage Error (Txt_generation_failed (ApiError err))] else []"
    note f = generate_remote_failed [OF assms remote_failed]
    have "?P True ?rf ?msg (ApiCall (Inl err) # DbCall ?refund ?rf # ?msg)"
      using f(1,3)
      by (simp add: replay_balance_simps generation_shape_def is_db_call_def is_api_call_def)
    then show ?thesis by blast
  next
    case add_rejected
    let ?rf = "db_ok e ?refund"
    let ?msg = "if ?rf then [ShowMessage Error (Txt_generation_failed (DbError (AddPokemon p)))]
                else []"
    note f = generate_add_rejected [OF assms add_rejected]
    have "?P True ?rf ?msg
            (ApiCall (Inr p) # DbCall (AddPokemon p) False # DbCall ?refund ?rf # ?msg)"
      using f(1,3)
      by (simp add: replay_balance_simps generation_shape_def is_db_call_def is_api_call_def)
    then show ?thesis by blast
  next
    case added
    let ?rf = "db_ok e ?refund"
    from generate_added [OF assms added] obtain evs where
      evs: "\<forall>ev \<in> set evs. ach_event ev"
      and alt: "fst (handleGeneratePokemon e s) = None
            \<and> events ?s' = events s @ [DbCall ?debit True, ApiCall (Inr p), DbCall (AddPokemon p) True]
                  @ evs @ [ShowMessage Success (Txt_generated (name_pk p))]
            \<and> tokenBalance ?s' = ?B - GENERATION_COST
            \<and> db_tokenBalance ?s' = Some (?B - GENERATION_COST)
          \<or> (\<exists>a pre. evs = pre @ [DbCall (UpdateAchievement a) False]
            \<and> events ?s' = events s @ [DbCall ?debit True, ApiCall (Inr p), DbCall (AddPokemon p) True]
                  @ evs @ [DbCall ?refund ?rf]
                  @ (if ?rf then [ShowMessage Error
                             (Txt_generation_failed (DbError (UpdateAchievement a)))] else [])
            \<and> tokenBalance ?s' = ?B
            \<and> db_tokenBalance ?s' = (if ?rf then Some ?B else Some (?B - GENERATION_COST)))"
      by blast
    from alt show ?thesis
    proof (elim disjE exE conjE)
      assume ev: "events ?s' = events s @ [DbCall ?debit True, ApiCall (Inr p), DbCall (AddPokemon p) True]
                  @ evs @ [ShowMessage Success (Txt_generated (name_pk p))]"
        and db: "db_tokenBalance ?s' = Some (?B - GENERATION_COST)"
      let ?msg = "[ShowMessage Success (Txt_generated (name_pk p))]"
      have rp: "replay_balance (evs @ ?msg) (Some (?B - GENERATION_COST)) = Some (?B - GENERATION_COST)"
        using evs by (simp add: replay_balance_append replay_balance_ach replay_balance_simps)
      have "generation_shape ?refund True ?rf ?msg
              (ApiCall (Inr p) # DbCall (AddPokemon p) True # evs @ ?msg)"
        using evs unfolding generation_shape_def by blast
      then have "?P True ?rf ?msg (ApiCall (Inr p) # DbCall (AddPokemon p) True # evs @ ?msg)"
        using ev db rp
        by (simp add: replay_balance_simps is_db_call_def is_api_call_def)
      then show ?thesis by blast
    next
      fix a pre
      assume pre: "evs = pre @ [DbCall (UpdateAchievement a) False]"
        and ev: "events ?s' = events s @ [DbCall ?debit True, ApiCall (Inr p), DbCall (AddPokemon p) True]
                  @ evs @ [DbCall ?refund ?rf]
                  @ (if ?rf then [ShowMessage Error
                             (Txt_generation_failed (DbError (UpdateAchievement a)))] else [])"
        and db: "db_tokenBalance ?s' = (if ?rf then Some ?B else Some (?B - GENERATION_COST))"
      let ?msg = "if ?rf then [ShowMessage Error
                             (Txt_generation_failed (DbError (UpdateAchievement a)))] else []"
      let ?rest = "ApiCall (Inr p) # DbCall (AddPokemon p) True
                     # pre @ DbCall (UpdateAchievement a) False # DbCall ?refund ?rf # ?msg"
      from evs pre have pre_ach: "\<forall>ev \<in> set pre. ach_event ev" by simp
      have rp: "replay_balance (pre @ DbCall (UpdateAchievement a) False # DbCall ?refund ?rf # ?msg)
                  (Some (?B - GENERATION_COST))
                = (if ?rf then Some ?B else Some (?B - GENERATION_COST))"
        using pre_ach by (simp add: replay_balance_append replay_balance_ach replay_balance_simps)
      have "generation_shape ?refund True ?rf ?msg ?rest"
        using pre_ach unfolding generation_shape_def by blast
      moreover have "events ?s' = events s @ DbCall ?debit True # ?rest"
        using ev pre by simp
      moreover have "db_tokenBalance ?s' = replay_balance (DbCall ?debit True # ?rest) (db_tokenBalance s)"
        using db rp by (simp add: replay_balance_simps)
      moreover have "\<forall>ev \<in> set ?msg. \<not> is_db_call ev \<and> \<not> is_api_call ev"
        by (rule message_only)
      ultimately have "?P True ?rf ?msg ?rest" by blast
      then show ?thesis by blast
    qed
  qed
qed

lemma shape_remote_call:
  assumes sh: "generation_shape refund debited rf msg rest"
    and msg: "\<forall>ev \<in> set msg. \<not> is_db_call ev \<and> \<not> is_api_call ev"
  shows "\<forall>r. ApiCall r \<in> set rest \<longrightarrow>
           debited \<and> (\<exists>rest'. rest = ApiCall r # rest' \<and> (\<forall>r'. ApiCall r' \<notin> set rest'))"
proof -
  have m: "\<And>r. ApiCall r \<notin> set msg" using msg by (auto simp: is_api_call_def)
  from sh show ?thesis
    unfolding generation_shape_def
    by (elim disjE conjE exE) (auto simp: m dest: ach_event_notin(1))
qed

lemma shape_item_write:
  assumes sh: "generation_shape (UpdateTokenBalance n) debited rf msg rest"
    and msg: "\<forall>ev \<in> set msg. \<not> is_db_call ev \<and> \<not> is_api_call ev"
  shows "\<forall>p ok. DbCall (AddPokemon p) ok \<in> set rest \<longrightarrow>
           (\<exists>rest'. rest = ApiCall (Inr p) # DbCall (AddPokemon p) ok # rest')"
proof -
  have m: "\<And>c ok. DbCall c ok \<notin> set msg" using msg by (auto simp: is_db_call_def)
  from sh show ?thesis
    unfolding generation_shape_def
    by (elim disjE conjE exE) (auto simp: m dest: ach_event_notin(2))
qed

lemma shape_compensation:
  assumes sh: "generation_shape (UpdateTokenBalance n) debited rf msg rest"
    and msg: "\<forall>ev \<in> set msg. \<not> is_db_call ev \<and> \<not> is_api_call ev"
    and ne: "m \<noteq> n"
  shows "\<forall>ok. DbCall (UpdateTokenBalance n) ok \<in> set rest \<longrightarrow>
           (\<exists>pre x post.
              DbCall (UpdateTokenBalance m) debited # rest
                = pre @ x # DbCall (UpdateTokenBalance n) ok # post
              \<and> failed_step x
              \<and> (\<forall>ev \<in> set post. \<not> is_db_call ev \<and> \<not> is_api_call ev))"
    (is "\<forall>ok. ?mem ok rest \<longrightarrow> ?Q ok")
proof -
  let ?all = "DbCall (UpdateTokenBalance m) debited # rest"
  let ?c = "UpdateTokenBalance n"
  have m: "\<And>c ok. DbCall c ok \<notin> set msg" using msg by (auto simp: is_db_call_def)
  have goal: "\<forall>ok. DbCall ?c ok \<in> set ?all \<longrightarrow> ?Q ok"
    if "failed_step x" "\<forall>ok'. DbCall ?c ok' \<notin> set (pre @ [x])"
       "?all = pre @ x # DbCall ?c rf # msg" for pre x
    using compensation_after_failure [OF that(1) msg that(2) that(3)] .
  from sh [unfolded generation_shape_def] show ?thesis
  proof (elim disjE conjE exE)
    assume "\<not> debited" "rest = DbCall ?c rf # msg"
    then have "\<forall>ok. DbCall ?c ok \<in> set ?all \<longrightarrow> ?Q ok"
      using ne by (intro goal [of "DbCall (UpdateTokenBalance m) debited" "[]"])
                  (simp_all add: failed_step_def)
    then show ?thesis by simp
  next
    fix err assume "debited" "rest = ApiCall (Inl err) # DbCall ?c rf # msg"
    then have "\<forall>ok. DbCall ?c ok \<in> set ?all \<longrightarrow> ?Q ok"
      using ne by (intro goal [of "ApiCall (Inl err)" "[DbCall (UpdateTokenBalance m) debited]"])
                  (simp_all add: failed_step_def)
    then show ?thesis by simp
  next
    fix p assume "debited"
      "rest = ApiCall (Inr p) # DbCall (AddPokemon p) False # DbCall ?c rf # msg"
    then have "\<forall>ok. DbCall ?c ok \<in> set ?all \<longrightarrow> ?Q ok"
      using ne by (intro goal [of "DbCall (AddPokemon p) False"
                      "[DbCall (UpdateTokenBalance m) debited, ApiCall (Inr p)]"])
                  (simp_all add: failed_step_def)
    then show ?thesis by simp
  next
    fix p evs assume "debited" "\<forall>ev \<in> set evs. ach_event ev"
      "rest = ApiCall (Inr p) # DbCall (AddPokemon p) True # evs @ msg"
    then have "\<And>ok. DbCall ?c ok \<notin> set rest"
      by (auto simp: m dest: ach_event_notin(3))
    then show ?thesis by simp
  next
    fix p evs a assume "debited" and evs: "\<forall>ev \<in> set evs. ach_event ev"
      and "rest = ApiCall (Inr p) # DbCall (AddPokemon p) True
                    # evs @ DbCall (UpdateAchievement a) False # DbCall ?c rf # msg"
    then have "\<forall>ok. DbCall ?c ok \<in> set ?all \<longrightarrow> ?Q ok"
      using ne ach_event_notin(3) [OF evs]
      by (intro goal [of "DbCall (UpdateAchievement a) False"
                      "DbCall (UpdateTokenBalance m) debited # ApiCall (Inr p)
                         # DbCall (AddPokemon p) True # evs"])
         (simp_all add: failed_step_def)
    then show ?thesis by simp
  qed
qed

section \<open>The balance invariant\<close>

lemma getResellValue_nonneg: "0 \<le> getResellValue r"
  by (cases r) (simp_all add: getResellValue_def)

lemma generate_balance_ok:
  "balance_ok s \<Longrightarrow> balance_ok (snd (handleGeneratePokemon e s))"
  by (auto simp add: balance_ok_def handleGeneratePokemon_def handleGeneratePokemon_try_def
        run_simps GENERATION_COST_def split: option.splits sum.splits)

lemma resell_balance_ok:
  "balance_ok s \<Longrightarrow>
     balance_ok (handleResellConfirmation_onConfirm e pokemon (handleResellConfirmation pokemon s))"
  using getResellValue_nonneg [of "rarity pokemon"]
  by (auto simp add: balance_ok_def handleResellConfirmation_onConfirm_def
        handleResellConfirmation_def handleResellConfirmation_try_def run_simps
        split: option.splits)

lemma buy_balance_ok:
  "balance_ok s \<Longrightarrow> balance_ok (handleBuyPokemon e pokemon s)"
  by (auto simp add: balance_ok_def handleBuyPokemon_def run_simps split: option.splits)

lemma dispatch_balance_ok:
  "balance_ok s \<Longrightarrow> balance_ok (dispatch e i s)"
  by (cases i) (simp_all add: generate_balance_ok resell_balance_ok buy_balance_ok)

lemma dispatch_all_balance_ok:
  "balance_ok s \<Longrightarrow> balance_ok (dispatch_all ops s)"
  by (induction ops arbitrary: s) (auto simp: dispatch_balance_ok)

section \<open>Evaluating concrete runs\<close>

lemmas example_defs = example_state_def example_env_def example_pokemon_def
  example_response_def example_intents_def carry_out_all_def refuse_only_def
  refuse_balance_writes_def

lemmas model_defs = handleGeneratePokemon_def handleGeneratePokemon_try_def
  handleResellConfirmation_onConfirm_def handleResellConfirmation_def
  handleResellConfirmation_try_def handleBuyPokemon_def
  checkAndUnlockAchievements_def ALL_ACHIEVEMENTS_def alreadyUnlocked_def shouldUnlock_def
  newAchievement_def showMessage_def generatePokemon_def mapApiRarityToEnum_def falsy_def
  updateTokenBalance_eq updatePokemon_eq updateAchievement_eq addPokemon_eq
  updateDailyBonusStatus_eq
  getResellValue_def getBuyPrice_def GENERATION_COST_def sortNewestFirst_def Let_def

section \<open>What an evaluation writes and merges\<close>

lemma find_foldl_put_notin:
  "k \<notin> key ` set news \<Longrightarrow>
     find (\<lambda>x. key x = k) (foldl (\<lambda>l v. put_by key v l) l news) = find (\<lambda>x. key x = k) l"
  by (induction news arbitrary: l) (auto simp: find_put_by_other)


lemma unlockLoop_returned:
  "unlockLoop e ps cur defs acc s = (Inr acc', s') \<Longrightarrow>
     acc' = acc @ map (newAchievement e) (filter (unlock_due cur ps) defs)
     \<and> db_achievements s'
         = foldl (\<lambda>l v. put_by id_ach v l) (db_achievements s)
             (map (newAchievement e) (filter (unlock_due cur ps) defs))
     \<and> events s'
         = events s @ concat (map (\<lambda>d. [DbCall (UpdateAchievement (newAchievement e d)) True,
                                        ShowMessage Success (Txt_achievement_unlocked (name_def d))])
                                (filter (unlock_due cur ps) defs))"
proof (induction defs arbitrary: acc s)
  case Nil
  then show ?case by simp
next
  case (Cons d ds)
  let ?a = "newAchievement e d"
  consider (skip) "\<not> unlock_due cur ps d"
    | (rejected) "unlock_due cur ps d" "\<not> fst (updateAchievement e ?a s)"
    | (resolved) "unlock_due cur ps d" "fst (updateAchievement e ?a s)"
    by blast
  then show ?case
  proof cases
    case skip
    from Cons.prems have "unlockLoop e ps cur ds acc s = (Inr acc', s')"
      by (simp only: unlockLoop_skip [OF skip])
    from Cons.IH [OF this] skip show ?thesis by simp
  next
    case rejected
    from Cons.prems have False
      by (simp only: unlockLoop_rejected [OF rejected] prod.inject) simp
    then show ?thesis ..
  next
    case resolved
    let ?s1 = "showMessage Success (Txt_achievement_unlocked (name_def d))
                 (snd (updateAchievement e ?a s))"
    from Cons.prems
    have run: "unlockLoop e ps cur ds (acc @ [?a]) ?s1 = (Inr acc', s')"
      by (simp only: unlockLoop_resolved [OF resolved])
    have db1: "db_achievements ?s1 = put_by id_ach ?a (db_achievements s)"
      using resolved(2) by (simp add: store_sel)
    have ev1: "events ?s1 = events s @ [DbCall (UpdateAchievement ?a) True,
                 ShowMessage Success (Txt_achievement_unlocked (name_def d))]"
      using resolved(2) by (simp add: store_sel)
    from Cons.IH [OF run] resolved(1) db1 ev1 show ?thesis by simp
  qed
qed

lemma unlockLoop_writes:
  "unlockLoop e ps cur defs acc s = (r, s') \<Longrightarrow>
     (\<exists>evs. events s' = events s @ evs
        \<and> (\<forall>a ok. DbCall (UpdateAchievement a) ok \<in> set evs \<longrightarrow>
              (\<exists>d \<in> set defs. unlock_due cur ps d \<and> a = newAchievement e d)))
     \<and> (\<forall>i. (\<forall>d \<in> set defs. unlock_due cur ps d \<longrightarrow> id_def d \<noteq> i) \<longrightarrow>
           find (\<lambda>x. id_ach x = i) (db_achievements s')
             = find (\<lambda>x. id_ach x = i) (db_achievements s))"
proof (induction defs arbitrary: acc s)
  case Nil
  then show ?case by simp
next
  case (Cons d ds)
  let ?a = "newAchievement e d"
  have ida: "id_ach ?a = id_def d" by (simp add: newAchievement_def)
  consider (skip) "\<not> unlock_due cur ps d"
    | (rejected) "unlock_due cur ps d" "\<not> fst (updateAchievement e ?a s)"
    | (resolved) "unlock_due cur ps d" "fst (updateAchievement e ?a s)"
    by blast
  then show ?case
  proof cases
    case skip
    from Cons.prems have "unlockLoop e ps cur ds acc s = (r, s')"
      by (simp only: unlockLoop_skip [OF skip])
    from Cons.IH [OF this] skip show ?thesis by auto
  next
    case rejected
    from Cons.prems have s': "s' = snd (updateAchievement e ?a s)"
      by (simp only: unlockLoop_rejected [OF rejected] prod.inject)
    have "events s' = events s @ [DbCall (UpdateAchievement ?a) False]"
      and "db_achievements s' = db_achievements s"
      using rejected(2) by (simp_all add: s' store_sel)
    with rejected(1) show ?thesis by auto
  next
    case resolved
    let ?s1 = "showMessage Success (Txt_achievement_unlocked (name_def d))
                 (snd (updateAchievement e ?a s))"
    from Cons.prems
    have run: "unlockLoop e ps cur ds (acc @ [?a]) ?s1 = (r, s')"
      by (simp only: unlockLoop_resolved [OF resolved])
    have db1: "db_achievements ?s1 = put_by id_ach ?a (db_achievements s)"
      using resolved(2) by (simp add: store_sel)
    have ev1: "events ?s1 = events s @ [DbCall (UpdateAchievement ?a) True,
                 ShowMessage Success (Txt_achievement_unlocked (name_def d))]"
      using resolved(2) by (simp add: store_sel)
    from Cons.IH [OF run] obtain evs where
      evs: "events s' = events ?s1 @ evs"
        "\<forall>a ok. DbCall (UpdateAchievement a) ok \<in> set evs \<longrightarrow>
              (\<exists>d \<in> set ds. unlock_due cur ps d \<and> a = newAchievement e d)"
      and db: "\<forall>i. (\<forall>d \<in> set ds. unlock_due cur ps d \<longrightarrow> id_def d \<noteq> i) \<longrightarrow>
           find (\<lambda>x. id_ach x = i) (db_achievements s')
             = find (\<lambda>x. id_ach x = i) (db_achievements ?s1)"
      by blast
    let ?new = "[DbCall (UpdateAchievement ?a) True,
                 ShowMessage Success (Txt_achievement_unlocked (name_def d))] @ evs"
    have A: "events s' = events s @ ?new" using evs(1) ev1 by simp
    have B: "\<forall>a ok. DbCall (UpdateAchievement a) ok \<in> set ?new \<longrightarrow>
              (\<exists>d' \<in> set (d # ds). unlock_due cur ps d' \<and> a = newAchievement e d')"
      using evs(2) resolved(1) by auto
    have C: "\<forall>i. (\<forall>d' \<in> set (d # ds). unlock_due cur ps d' \<longrightarrow> id_def d' \<noteq> i) \<longrightarrow>
           find (\<lambda>x. id_ach x = i) (db_achievements s')
             = find (\<lambda>x. id_ach x = i) (db_achievements s)"
    proof (intro allI impI)
      fix i assume i: "\<forall>d' \<in> set (d # ds). unlock_due cur ps d' \<longrightarrow> id_def d' \<noteq> i"
      with resolved(1) have "i \<noteq> id_ach ?a" by (auto simp: ida)
      then have "find (\<lambda>x. id_ach x = i) (db_achievements ?s1)
                   = find (\<lambda>x. id_ach x = i) (db_achievements s)"
        by (simp add: db1 find_put_by_other)
      with db i show "find (\<lambda>x. id_ach x = i) (db_achievements s')
             = find (\<lambda>x. id_ach x = i) (db_achievements s)" by simp
    qed
    from A B C show ?thesis by blast
  qed
qed


lemma checkAndUnlockAchievements_completed:
  assumes "fst (checkAndUnlockAchievements e ps cur s) = None"
  shows "achievements (snd (checkAndUnlockAchievements e ps cur s))
           = foldl (\<lambda>l v. put_by id_ach v l) (achievements s)
               (map (newAchievement e) (filter (unlock_due cur ps) ALL_ACHIEVEMENTS))"
    "db_achievements (snd (checkAndUnlockAchievements e ps cur s))
           = foldl (\<lambda>l v. put_by id_ach v l) (db_achievements s)
               (map (newAchievement e) (filter (unlock_due cur ps) ALL_ACHIEVEMENTS))"
    "events (snd (checkAndUnlockAchievements e ps cur s))
           = events s @ concat (map (\<lambda>d. [DbCall (UpdateAchievement (newAchievement e d)) True,
                                        ShowMessage Success (Txt_achievement_unlocked (name_def d))])
                                (filter (unlock_due cur ps) ALL_ACHIEVEMENTS))"
proof -
  obtain r1 s1 where loop: "unlockLoop e ps cur ALL_ACHIEVEMENTS [] s = (r1, s1)"
    by (cases "unlockLoop e ps cur ALL_ACHIEVEMENTS [] s")
  from assms loop obtain acc where r1: "r1 = Inr acc"
    by (cases r1) (auto simp: checkAndUnlockAchievements_def)
  note ret = unlockLoop_returned [OF loop [unfolded r1]]
  note fr = unlockLoop_frame [OF loop]
  let ?news = "map (newAchievement e) (filter (unlock_due cur ps) ALL_ACHIEVEMENTS)"
  from ret have acc: "acc = ?news" by simp
  have s': "snd (checkAndUnlockAchievements e ps cur s)
              = (if ?news \<noteq> [] then s1\<lparr>achievements := foldl (\<lambda>l v. put_by id_ach v l)
                                                       (achievements s1) ?news\<rparr> else s1)"
    using loop r1 acc by (simp add: checkAndUnlockAchievements_def)
  show "achievements (snd (checkAndUnlockAchievements e ps cur s))
           = foldl (\<lambda>l v. put_by id_ach v l) (achievements s) ?news"
    using fr by (cases "?news = []") (simp_all add: s')
  show "db_achievements (snd (checkAndUnlockAchievements e ps cur s))
           = foldl (\<lambda>l v. put_by id_ach v l) (db_achievements s) ?news"
    using ret by (simp add: s')
  show "events (snd (checkAndUnlockAchievements e ps cur s))
           = events s @ concat (map (\<lambda>d. [DbCall (UpdateAchievement (newAchievement e d)) True,
                                        ShowMessage Success (Txt_achievement_unlocked (name_def d))])
                                (filter (unlock_due cur ps) ALL_ACHIEVEMENTS))"
    using ret by (simp add: s')
qed

lemma checkAndUnlockAchievements_thrown_keeps:
  assumes "fst (checkAndUnlockAchievements e ps cur s) = Some err"
  shows "achievements (snd (checkAndUnlockAchievements e ps cur s)) = achievements s"
proof -
  obtain r1 s1 where loop: "unlockLoop e ps cur ALL_ACHIEVEMENTS [] s = (r1, s1)"
    by (cases "unlockLoop e ps cur ALL_ACHIEVEMENTS [] s")
  from assms loop have "snd (checkAndUnlockAchievements e ps cur s) = s1"
    by (auto simp: checkAndUnlockAchievements_def split: sum.splits)
  with unlockLoop_frame [OF loop] show ?thesis by simp
qed

lemma checkAndUnlockAchievements_untouched:
  assumes i: "\<forall>d \<in> set ALL_ACHIEVEMENTS. unlock_due cur ps d \<longrightarrow> id_def d \<noteq> i"
  shows "\<exists>evs. events (snd (checkAndUnlockAchievements e ps cur s)) = events s @ evs
           \<and> (\<forall>a ok. DbCall (UpdateAchievement a) ok \<in> set evs \<longrightarrow> id_ach a \<noteq> i)"
    "find (\<lambda>x. id_ach x = i) (db_achievements (snd (checkAndUnlockAchievements e ps cur s)))
       = find (\<lambda>x. id_ach x = i) (db_achievements s)"
    "find (\<lambda>x. id_ach x = i) (achievements (snd (checkAndUnlockAchievements e ps cur s)))
       = find (\<lambda>x. id_ach x = i) (achievements s)"
proof -
  obtain r1 s1 where loop: "unlockLoop e ps cur ALL_ACHIEVEMENTS [] s = (r1, s1)"
    by (cases "unlockLoop e ps cur ALL_ACHIEVEMENTS [] s")
  note fr = unlockLoop_frame [OF loop]
  let ?s' = "snd (checkAndUnlockAchievements e ps cur s)"
  have same: "events ?s' = events s1" "db_achievements ?s' = db_achievements s1"
    using loop by (auto simp: checkAndUnlockAchievements_def split: sum.splits)
  from unlockLoop_writes [OF loop] obtain evs where
    evs: "events s1 = events s @ evs"
      "\<forall>a ok. DbCall (UpdateAchievement a) ok \<in> set evs \<longrightarrow>
         (\<exists>d \<in> set ALL_ACHIEVEMENTS. unlock_due cur ps d \<and> a = newAchievement e d)"
    and db: "\<forall>i. (\<forall>d \<in> set ALL_ACHIEVEMENTS. unlock_due cur ps d \<longrightarrow> id_def d \<noteq> i) \<longrightarrow>
           find (\<lambda>x. id_ach x = i) (db_achievements s1)
             = find (\<lambda>x. id_ach x = i) (db_achievements s)"
    by blast
  have "\<forall>a ok. DbCall (UpdateAchievement a) ok \<in> set evs \<longrightarrow> id_ach a \<noteq> i"
  proof (intro allI impI)
    fix a ok assume "DbCall (UpdateAchievement a) ok \<in> set evs"
    with evs(2) obtain d where "d \<in> set ALL_ACHIEVEMENTS" "unlock_due cur ps d"
      "a = newAchievement e d" by blast
    with i show "id_ach a \<noteq> i" by (auto simp: newAchievement_def)
  qed
  with evs(1) same(1)
  show "\<exists>evs. events ?s' = events s @ evs
           \<and> (\<forall>a ok. DbCall (UpdateAchievement a) ok \<in> set evs \<longrightarrow> id_ach a \<noteq> i)"
    by auto
  from db i same(2)
  show "find (\<lambda>x. id_ach x = i) (db_achievements ?s') = find (\<lambda>x. id_ach x = i) (db_achievements s)"
    by simp
  show "find (\<lambda>x. id_ach x = i) (achievements ?s') = find (\<lambda>x. id_ach x = i) (achievements s)"
  proof (cases "fst (checkAndUnlockAchievements e ps cur s)")
    case None
    have "i \<notin> id_ach ` set (map (newAchievement e) (filter (unlock_due cur ps) ALL_ACHIEVEMENTS))"
      using i by (auto simp: newAchievement_def)
    then have "find (\<lambda>x. id_ach x = i)
                 (foldl (\<lambda>l v. put_by id_ach v l) (achievements s)
                    (map (newAchievement e) (filter (unlock_due cur ps) ALL_ACHIEVEMENTS)))
               = find (\<lambda>x. id_ach x = i) (achievements s)"
      by (rule find_foldl_put_notin)
    then show ?thesis
      by (simp only: checkAndUnlockAchievements_completed(1) [OF None])
  next
    case (Some err)
    then show ?thesis by (simp add: checkAndUnlockAchievements_thrown_keeps)
  qed
qed

lemma unlock_due_eq:
  "unlock_due cur ps = (\<lambda>d. \<not> alreadyUnlocked cur (id_def d) \<and> shouldUnlock (id_def d) ps)"
  by (simp add: unlock_due_def fun_eq_iff)

lemma alreadyUnlocked_not_due:
  "alreadyUnlocked cur i \<Longrightarrow> \<forall>d \<in> set ALL_ACHIEVEMENTS. unlock_due cur ps d \<longrightarrow> id_def d \<noteq> i"
  by (auto simp: unlock_due_def)


section \<open>The daily bonus\<close>

lemma withTransaction_read:
  "withTransaction e c Some s =
     (if (db_handle s \<or> db_ok e OpenDatabase) \<and> db_ok e c
      then (True, s\<lparr>db_handle := True, events := events s @ [DbCall c True]\<rparr>)
      else (False, s\<lparr>db_handle := db_handle s \<or> db_ok e OpenDatabase,
                     events := events s @ [DbCall c False]\<rparr>))"
  by (auto simp add: withTransaction_def openDatabase_def db_handle_idem)

lemma read_results:
  "fst (getPokemons e s)
     = (if (db_handle s \<or> db_ok e OpenDatabase) \<and> db_ok e GetPokemons
        then Some (db_pokemons s) else None)"
  "fst (getAchievements e s)
     = (if (db_handle s \<or> db_ok e OpenDatabase) \<and> db_ok e GetAchievements
        then Some (db_achievements s) else None)"
  "fst (getDailyBonusStatus e s)
     = (if (db_handle s \<or> db_ok e OpenDatabase) \<and> db_ok e GetDailyBonusStatus
        then Some (db_dailyBonus s) else None)"
  "fst (getTokenBalance e s)
     = (if (db_handle s \<or> db_ok e OpenDatabase) \<and> db_ok e GetTokenBalance
        then Some (case db_tokenBalance s of None \<Rightarrow> 100 | Some b \<Rightarrow> b) else None)"
  "fst (getPlayerSettings e s)
     = (if (db_handle s \<or> db_ok e OpenDatabase) \<and> db_ok e GetPlayerSettings
        then Some (case db_playerSettings s of None \<Rightarrow> defaultSettings | Some b \<Rightarrow> b)
        else None)"
  by (auto simp add: getPokemons_def getAchievements_def getDailyBonusStatus_def
        getTokenBalance_def getPlayerSettings_def withTransaction_def openDatabase_def
        split: option.splits)

lemma read_frames:
  "db_handle (snd (getPokemons e s)) = (db_handle s \<or> db_ok e OpenDatabase)"
  "db_dailyBonus (snd (getPokemons e s)) = db_dailyBonus s"
  "isDailyBonusModalOpen (snd (getPokemons e s)) = isDailyBonusModalOpen s"
  "dailyBonusAmount (snd (getPokemons e s)) = dailyBonusAmount s"
  "db_handle (snd (getAchievements e s)) = (db_handle s \<or> db_ok e OpenDatabase)"
  "db_dailyBonus (snd (getAchievements e s)) = db_dailyBonus s"
  "isDailyBonusModalOpen (snd (getAchievements e s)) = isDailyBonusModalOpen s"
  "dailyBonusAmount (snd (getAchievements e s)) = dailyBonusAmount s"
  "db_handle (snd (getDailyBonusStatus e s)) = (db_handle s \<or> db_ok e OpenDatabase)"
  "db_dailyBonus (snd (getDailyBonusStatus e s)) = db_dailyBonus s"
  "isDailyBonusModalOpen (snd (getDailyBonusStatus e s)) = isDailyBonusModalOpen s"
  "dailyBonusAmount (snd (getDailyBonusStatus e s)) = dailyBonusAmount s"
  "db_handle (snd (getTokenBalance e s)) = (db_handle s \<or> db_ok e OpenDatabase)"
  "db_dailyBonus (snd (getTokenBalance e s)) = db_dailyBonus s"
  "isDailyBonusModalOpen (snd (getTokenBalance e s)) = isDailyBonusModalOpen s"
  "dailyBonusAmount (snd (getTokenBalance e s)) = dailyBonusAmount s"
  "db_handle (snd (getPlayerSettings e s)) = (db_handle s \<or> db_ok e OpenDatabase)"
  "db_dailyBonus (snd (getPlayerSettings e s)) = db_dailyBonus s"
  "isDailyBonusModalOpen (snd (getPlayerSettings e s)) = isDailyBonusModalOpen s"
  "dailyBonusAmount (snd (getPlayerSettings e s)) = dailyBonusAmount s"
  "db_handle (snd (openDatabase e s)) = (db_handle s \<or> db_ok e OpenDatabase)"
  "fst (openDatabase e s) = (db_handle s \<or> db_ok e OpenDatabase)"
  "db_dailyBonus (snd (openDatabase e s)) = db_dailyBonus s"
  "isDailyBonusModalOpen (snd (openDatabase e s)) = isDailyBonusModalOpen s"
  "dailyBonusAmount (snd (openDatabase e s)) = dailyBonusAmount s"
  by (auto simp add: getPokemons_def getAchievements_def getDailyBonusStatus_def
        getTokenBalance_def getPlayerSettings_def withTransaction_def openDatabase_def
        split: option.splits)

lemma fetchAppData_offer:
  "isDailyBonusModalOpen (fetchAppData e s)
     = (if loads e s \<and> dailyBonusDue e (db_dailyBonus s) then True else isDailyBonusModalOpen s)"
  "dailyBonusAmount (fetchAppData e s)
     = (if loads e s \<and> dailyBonusDue e (db_dailyBonus s)
        then \<lfloor>math_random e * 6\<rfloor> + 5 else dailyBonusAmount s)"
  by (auto simp add: fetchAppData_def fetchAppData_try_def loads_def Let_def case_prod_beta
        read_results read_frames snd_checkAndUnlockAchievements showMessage_sel
        split: option.splits)

lemma bonus_amount_range:
  assumes "0 \<le> r" "r < 1"
  shows "5 \<le> \<lfloor>r * 6\<rfloor> + 5 \<and> \<lfloor>r * 6\<rfloor> + 5 \<le> (10::int)"
proof -
  from assms have "0 \<le> r * 6" "r * 6 < 6" by simp_all
  then have "0 \<le> \<lfloor>r * 6\<rfloor>" "\<lfloor>r * 6\<rfloor> < 6" by (simp_all add: floor_less_iff)
  then show ?thesis by simp
qed

lemma claim_written:
  assumes "db_handle s \<or> db_ok e OpenDatabase"
    and "db_ok e (UpdateTokenBalance (tokenBalance s + dailyBonusAmount s))"
    and "db_ok e (UpdateDailyBonusStatus (now e))"
  shows "db_tokenBalance (snd (handleClaimDailyBonus e s))
           = Some (tokenBalance s + dailyBonusAmount s)"
    "tokenBalance (snd (handleClaimDailyBonus e s)) = tokenBalance s + dailyBonusAmount s"
    "db_dailyBonus (snd (handleClaimDailyBonus e s)) = Some (now e)"
    "\<not> isDailyBonusModalOpen (snd (handleClaimDailyBonus e s))"
    "fst (handleClaimDailyBonus e s) = None"
    "events (snd (handleClaimDailyBonus e s))
       = events s @ [DbCall (UpdateTokenBalance (tokenBalance s + dailyBonusAmount s)) True,
           DbCall (UpdateDailyBonusStatus (now e)) True,
           ShowMessage Success (Txt_bonus_received (dailyBonusAmount s))]"
  using assms by (simp_all add: handleClaimDailyBonus_def run_simps)

lemma mount_sel:
  "db_dailyBonus (mount s) = db_dailyBonus s"
  "isDailyBonusModalOpen (mount s) = False"
  "dailyBonusAmount (mount s) = 0"
  by (simp_all add: mount_def)

lemmas load_defs = fetchAppData_def fetchAppData_try_def getPokemons_def getTokenBalance_def
  getAchievements_def getDailyBonusStatus_def getPlayerSettings_def withTransaction_def
  openDatabase_def dailyBonusDue_def mount_def loads_def handleClaimDailyBonus_def
  dailyBonusModal_onConfirm_def example_bonus_state_def defaultSettings_def

text \<open>
  What the claim handler and the claim check do. When the store carries out its two
  writes, a claim credits the balance, persisted and in memory, by the offered amount,
  persists the current instant as the last-claimed value and closes the dialog; confirming
  again on the closed dialog does nothing. A load at an instant of the same calendar day
  as the persisted instant opens no dialog and offers no amount. With a persisted instant
  of another calendar day, or none, a load whose reads are carried out opens the dialog
  with an amount in the inclusive range 5 to 10.
\<close>

lemma daily_bonus_claim_and_check:
  "((db_handle s \<or> db_ok e OpenDatabase)
      \<and> db_ok e (UpdateTokenBalance (tokenBalance s + dailyBonusAmount s))
      \<and> db_ok e (UpdateDailyBonusStatus (now e))
    \<longrightarrow>
      db_tokenBalance (snd (handleClaimDailyBonus e s))
        = Some (tokenBalance s + dailyBonusAmount s)
      \<and> tokenBalance (snd (handleClaimDailyBonus e s)) = tokenBalance s + dailyBonusAmount s
      \<and> db_dailyBonus (snd (handleClaimDailyBonus e s)) = Some (now e)
      \<and> \<not> isDailyBonusModalOpen (snd (handleClaimDailyBonus e s))
      \<and> dailyBonusModal_onConfirm e'' (snd (handleClaimDailyBonus e s))
          = (None, snd (handleClaimDailyBonus e s))
      \<and> (toDateString e' (now e) = toDateString e' (now e') \<longrightarrow>
            \<not> isDailyBonusModalOpen (fetchAppData e' (snd (handleClaimDailyBonus e s)))
            \<and> \<not> isDailyBonusModalOpen (fetchAppData e' (mount (snd (handleClaimDailyBonus e s))))
            \<and> dailyBonusAmount (fetchAppData e' (mount (snd (handleClaimDailyBonus e s)))) = 0
            \<and> dailyBonusModal_onConfirm e''
                 (fetchAppData e' (mount (snd (handleClaimDailyBonus e s))))
               = (None, fetchAppData e' (mount (snd (handleClaimDailyBonus e s))))))
   \<and> (\<forall>t. db_dailyBonus s = Some t \<and> toDateString e' t = toDateString e' (now e') \<longrightarrow>
          isDailyBonusModalOpen (fetchAppData e' s) = isDailyBonusModalOpen s
          \<and> dailyBonusAmount (fetchAppData e' s) = dailyBonusAmount s)
   \<and> (loads e' s
        \<and> (db_dailyBonus s = None
            \<or> (\<exists>t. db_dailyBonus s = Some t \<and> toDateString e' t \<noteq> toDateString e' (now e')))
        \<and> 0 \<le> math_random e' \<and> math_random e' < 1
      \<longrightarrow>
        isDailyBonusModalOpen (fetchAppData e' s)
        \<and> 5 \<le> dailyBonusAmount (fetchAppData e' s)
        \<and> dailyBonusAmount (fetchAppData e' s) \<le> 10)"
proof -
  let ?c = "snd (handleClaimDailyBonus e s)"
  have claimed: "(db_handle s \<or> db_ok e OpenDatabase)
      \<and> db_ok e (UpdateTokenBalance (tokenBalance s + dailyBonusAmount s))
      \<and> db_ok e (UpdateDailyBonusStatus (now e))
    \<longrightarrow>
      db_tokenBalance ?c = Some (tokenBalance s + dailyBonusAmount s)
      \<and> tokenBalance ?c = tokenBalance s + dailyBonusAmount s
      \<and> db_dailyBonus ?c = Some (now e)
      \<and> \<not> isDailyBonusModalOpen ?c
      \<and> dailyBonusModal_onConfirm e'' ?c = (None, ?c)
      \<and> (toDateString e' (now e) = toDateString e' (now e') \<longrightarrow>
            \<not> isDailyBonusModalOpen (fetchAppData e' ?c)
            \<and> \<not> isDailyBonusModalOpen (fetchAppData e' (mount ?c))
            \<and> dailyBonusAmount (fetchAppData e' (mount ?c)) = 0
            \<and> dailyBonusModal_onConfirm e'' (fetchAppData e' (mount ?c))
               = (None, fetchAppData e' (mount ?c)))"
  proof (intro impI, elim conjE)
    assume a: "db_handle s \<or> db_ok e OpenDatabase"
      "db_ok e (UpdateTokenBalance (tokenBalance s + dailyBonusAmount s))"
      "db_ok e (UpdateDailyBonusStatus (now e))"
    note c = claim_written [OF a]
    have same_day: "toDateString e' (now e) = toDateString e' (now e') \<longrightarrow>
            \<not> isDailyBonusModalOpen (fetchAppData e' ?c)
            \<and> \<not> isDailyBonusModalOpen (fetchAppData e' (mount ?c))
            \<and> dailyBonusAmount (fetchAppData e' (mount ?c)) = 0
            \<and> dailyBonusModal_onConfirm e'' (fetchAppData e' (mount ?c))
               = (None, fetchAppData e' (mount ?c))"
      using c(3,4)
      by (simp add: fetchAppData_offer mount_sel dailyBonusDue_def dailyBonusModal_onConfirm_def)
    from c same_day
    show "db_tokenBalance ?c = Some (tokenBalance s + dailyBonusAmount s)
      \<and> tokenBalance ?c = tokenBalance s + dailyBonusAmount s
      \<and> db_dailyBonus ?c = Some (now e)
      \<and> \<not> isDailyBonusModalOpen ?c
      \<and> dailyBonusModal_onConfirm e'' ?c = (None, ?c)
      \<and> (toDateString e' (now e) = toDateString e' (now e') \<longrightarrow>
            \<not> isDailyBonusModalOpen (fetchAppData e' ?c)
            \<and> \<not> isDailyBonusModalOpen (fetchAppData e' (mount ?c))
            \<and> dailyBonusAmount (fetchAppData e' (mount ?c)) = 0
            \<and> dailyBonusModal_onConfirm e'' (fetchAppData e' (mount ?c))
               = (None, fetchAppData e' (mount ?c)))"
      by (simp add: dailyBonusModal_onConfirm_def)
  qed
  have no_offer: "\<forall>t. db_dailyBonus s = Some t \<and> toDateString e' t = toDateString e' (now e') \<longrightarrow>
          isDailyBonusModalOpen (fetchAppData e' s) = isDailyBonusModalOpen s
          \<and> dailyBonusAmount (fetchAppData e' s) = dailyBonusAmount s"
    by (simp add: fetchAppData_offer dailyBonusDue_def)
  have offer: "loads e' s
        \<and> (db_dailyBonus s = None
            \<or> (\<exists>t. db_dailyBonus s = Some t \<and> toDateString e' t \<noteq> toDateString e' (now e')))
        \<and> 0 \<le> math_random e' \<and> math_random e' < 1
      \<longrightarrow>
        isDailyBonusModalOpen (fetchAppData e' s)
        \<and> 5 \<le> dailyBonusAmount (fetchAppData e' s)
        \<and> dailyBonusAmount (fetchAppData e' s) \<le> 10"
  proof (intro impI, elim conjE)
    assume l: "loads e' s"
      and d: "db_dailyBonus s = None
            \<or> (\<exists>t. db_dailyBonus s = Some t \<and> toDateString e' t \<noteq> toDateString e' (now e'))"
      and r: "0 \<le> math_random e'" "math_random e' < 1"
    from d have due: "dailyBonusDue e' (db_dailyBonus s)"
      by (auto simp: dailyBonusDue_def)
    from bonus_amount_range [OF r] l due
    show "isDailyBonusModalOpen (fetchAppData e' s)
        \<and> 5 \<le> dailyBonusAmount (fetchAppData e' s)
        \<and> dailyBonusAmount (fetchAppData e' s) \<le> 10"
      by (simp add: fetchAppData_offer)
  qed
  from claimed no_offer offer show ?thesis by blast
qed

section \<open>The evaluation in the words of the claims\<close>




lemma newAchievement_record: "newAchievement e d = unlocked_record (now e) d"
  by (simp add: newAchievement_def unlocked_record_def)

lemma newAchievement_record_fun: "newAchievement e = unlocked_record (now e)"
  by (rule ext) (rule newAchievement_record)







section \<open>What the call sites hand to the evaluation\<close>












lemmas scenario_defs = example_loaded_state_def example_refusing_env_def
  example_after_aborted_evaluation_def example_second_env_def example_nine_def
  example_ninth_state_def example_tenth_env_def locked_entry_def unlocked_record_def
  allAchievements_of_def spec_predicate_def spec_newly_satisfied_def

section \<open>Achievements unlocked in the set an evaluation is given\<close>

text \<open>
  An achievement that is unlocked in the set an evaluation is given is skipped: whatever
  the items and whatever the store does, the evaluation issues no write for it and leaves
  its persisted record and its entry in the controller's set as they are. The test reads
  the set the evaluation is given, never the store.
\<close>

lemma unlocked_in_given_set_stays:
  assumes "find (\<lambda>x. id_ach x = i) currentAchievements = Some a" and "unlocked a"
  shows "(\<exists>evs. events (snd (checkAndUnlockAchievements e ps currentAchievements s))
                  = events s @ evs
             \<and> (\<forall>a' ok. DbCall (UpdateAchievement a') ok \<in> set evs \<longrightarrow> id_ach a' \<noteq> i))
     \<and> find (\<lambda>x. id_ach x = i)
          (db_achievements (snd (checkAndUnlockAchievements e ps currentAchievements s)))
         = find (\<lambda>x. id_ach x = i) (db_achievements s)
     \<and> find (\<lambda>x. id_ach x = i)
          (achievements (snd (checkAndUnlockAchievements e ps currentAchievements s)))
         = find (\<lambda>x. id_ach x = i) (achievements s)
     \<and> (currentAchievements = achievements s \<longrightarrow>
          find (\<lambda>x. id_ach x = i)
            (achievements (snd (checkAndUnlockAchievements e ps currentAchievements s)))
           = Some a
          \<and> find (\<lambda>x. id_ach x = i)
              (achievements (snd (checkAndUnlockAchievements e' ps
                 (achievements (snd (checkAndUnlockAchievements e ps currentAchievements s)))
                 (snd (checkAndUnlockAchievements e ps currentAchievements s)))))
           = Some a)
     \<and> (\<forall>j. alreadyUnlocked
               (achievements (snd (checkAndUnlockAchievements e ps currentAchievements s))) j
            \<longrightarrow>
              find (\<lambda>x. id_ach x = j)
                (achievements (snd (checkAndUnlockAchievements e' ps
                   (achievements (snd (checkAndUnlockAchievements e ps currentAchievements s)))
                   (snd (checkAndUnlockAchievements e ps currentAchievements s)))))
               = find (\<lambda>x. id_ach x = j)
                   (achievements (snd (checkAndUnlockAchievements e ps currentAchievements s)))
              \<and> find (\<lambda>x. id_ach x = j)
                (db_achievements (snd (checkAndUnlockAchievements e' ps
                   (achievements (snd (checkAndUnlockAchievements e ps currentAchievements s)))
                   (snd (checkAndUnlockAchievements e ps currentAchievements s)))))
               = find (\<lambda>x. id_ach x = j)
                   (db_achievements (snd (checkAndUnlockAchievements e ps currentAchievements s))))"
proof -
  let ?s' = "snd (checkAndUnlockAchievements e ps currentAchievements s)"
  let ?s'' = "snd (checkAndUnlockAchievements e' ps (achievements ?s') ?s')"
  from assms have au: "alreadyUnlocked currentAchievements i"
    by (simp add: alreadyUnlocked_def)
  note nd = alreadyUnlocked_not_due [OF au, of ps]
  note first = checkAndUnlockAchievements_untouched [OF nd, of e s]
  have mirror: "currentAchievements = achievements s \<longrightarrow>
      find (\<lambda>x. id_ach x = i) (achievements ?s') = Some a
      \<and> find (\<lambda>x. id_ach x = i) (achievements ?s'') = Some a"
  proof
    assume cur: "currentAchievements = achievements s"
    with first(3) assms(1) have 1: "find (\<lambda>x. id_ach x = i) (achievements ?s') = Some a"
      by simp
    with assms(2) have "alreadyUnlocked (achievements ?s') i"
      by (simp add: alreadyUnlocked_def)
    from checkAndUnlockAchievements_untouched(3) [OF alreadyUnlocked_not_due [OF this, of ps], of e' ?s'] 1
    have "find (\<lambda>x. id_ach x = i) (achievements ?s'') = Some a" by simp
    with 1 show "find (\<lambda>x. id_ach x = i) (achievements ?s') = Some a
      \<and> find (\<lambda>x. id_ach x = i) (achievements ?s'') = Some a" by simp
  qed
  have again: "\<forall>j. alreadyUnlocked (achievements ?s') j \<longrightarrow>
      find (\<lambda>x. id_ach x = j) (achievements ?s'') = find (\<lambda>x. id_ach x = j) (achievements ?s')
      \<and> find (\<lambda>x. id_ach x = j) (db_achievements ?s'')
          = find (\<lambda>x. id_ach x = j) (db_achievements ?s')"
  proof (intro allI impI)
    fix j assume "alreadyUnlocked (achievements ?s') j"
    note nd' = alreadyUnlocked_not_due [OF this, of ps]
    from checkAndUnlockAchievements_untouched(2,3) [OF nd', of e' ?s']
    show "find (\<lambda>x. id_ach x = j) (achievements ?s'') = find (\<lambda>x. id_ach x = j) (achievements ?s')
      \<and> find (\<lambda>x. id_ach x = j) (db_achievements ?s'')
          = find (\<lambda>x. id_ach x = j) (db_achievements ?s')"
      by simp
  qed
  from first mirror again show ?thesis by blast
qed

section \<open>Properties of the protocols\<close>

text \<open>
  C1, as the code has it. Take a generation attempt that starts with balance \<open>B\<close>,
  persisted and mirrored in memory, passes the guard, has its debit write carried out,
  and then fails because the remote call fails (timeout, unreachable, rejection,
  malformed response) or because the write of the new item is rejected. Then the balance
  in memory is restored to \<open>B\<close>, the compensating write of \<open>B\<close> is issued, and no item
  is added to the item list or to the item store. If the store carries the compensating
  write out, the persisted balance is \<open>B\<close> again and the failure is shown as an error
  message; if the store refuses it as well, the persisted balance stays at \<open>B\<close> minus
  the cost, no message is shown, and the failure surfaces as the rejection of the
  handler's promise.
\<close>

theorem C1_rollback_of_failed_generation:
  assumes start: "tokenBalance s = B" "db_tokenBalance s = Some B"
    and guard: "GENERATION_COST \<le> B"
    and debit: "db_handle s \<or> db_ok e OpenDatabase"
               "db_ok e (UpdateTokenBalance (B - GENERATION_COST))"
    and failure: "(\<exists>err. fst (generatePokemon (remote e)) = Inl err)
                  \<or> (\<exists>p. fst (generatePokemon (remote e)) = Inr p
                        \<and> \<not> (db_ok e (AddPokemon p)
                             \<and> find (\<lambda>q. id_pk q = id_pk p) (db_pokemons s) = None))"
  shows "tokenBalance (snd (handleGeneratePokemon e s)) = B
     \<and> pokemons (snd (handleGeneratePokemon e s)) = pokemons s
     \<and> db_pokemons (snd (handleGeneratePokemon e s)) = db_pokemons s
     \<and> (\<exists>pre rf post. events (snd (handleGeneratePokemon e s))
           = events s @ DbCall (UpdateTokenBalance (B - GENERATION_COST)) True # pre
               @ DbCall (UpdateTokenBalance B) rf # post
           \<and> rf = db_ok e (UpdateTokenBalance B))
     \<and> (db_ok e (UpdateTokenBalance B) \<longrightarrow>
           db_tokenBalance (snd (handleGeneratePokemon e s)) = Some B
           \<and> fst (handleGeneratePokemon e s) = None
           \<and> (\<exists>err. message (snd (handleGeneratePokemon e s))
                      = Some \<lparr> type_msg = Error, text_msg = Txt_generation_failed err \<rparr>
                 \<and> last (events (snd (handleGeneratePokemon e s)))
                      = ShowMessage Error (Txt_generation_failed err)))
     \<and> (\<not> db_ok e (UpdateTokenBalance B) \<longrightarrow>
           db_tokenBalance (snd (handleGeneratePokemon e s)) = Some (B - GENERATION_COST)
           \<and> fst (handleGeneratePokemon e s) = Some (DbError (UpdateTokenBalance B))
           \<and> message (snd (handleGeneratePokemon e s)) = message s)"
proof -
  from guard start(1) have g: "GENERATION_COST \<le> tokenBalance s" by simp
  from debit start(1) have d: "db_ok e (UpdateTokenBalance (tokenBalance s - GENERATION_COST))"
    by simp
  from failure show ?thesis
  proof (elim disjE exE conjE)
    fix err assume r: "fst (generatePokemon (remote e)) = Inl err"
    note f = generate_remote_failed [OF g debit(1) d r]
    have "events (snd (handleGeneratePokemon e s))
            = events s @ DbCall (UpdateTokenBalance (B - GENERATION_COST)) True # [ApiCall (Inl err)]
               @ DbCall (UpdateTokenBalance B) (db_ok e (UpdateTokenBalance B))
               # (if db_ok e (UpdateTokenBalance B)
                  then [ShowMessage Error (Txt_generation_failed (ApiError err))] else [])"
      using f(1) start(1) by simp
    then have ev: "\<exists>pre rf post. events (snd (handleGeneratePokemon e s))
           = events s @ DbCall (UpdateTokenBalance (B - GENERATION_COST)) True # pre
               @ DbCall (UpdateTokenBalance B) rf # post
           \<and> rf = db_ok e (UpdateTokenBalance B)"
      by blast
    show ?thesis
      using ev f start(1) by (auto simp: f(1))
  next
    fix p assume r: "fst (generatePokemon (remote e)) = Inr p"
      and a: "\<not> (db_ok e (AddPokemon p)
                 \<and> find (\<lambda>q. id_pk q = id_pk p) (db_pokemons s) = None)"
    note f = generate_add_rejected [OF g debit(1) d r a]
    have "events (snd (handleGeneratePokemon e s))
            = events s @ DbCall (UpdateTokenBalance (B - GENERATION_COST)) True
               # [ApiCall (Inr p), DbCall (AddPokemon p) False]
               @ DbCall (UpdateTokenBalance B) (db_ok e (UpdateTokenBalance B))
               # (if db_ok e (UpdateTokenBalance B)
                  then [ShowMessage Error (Txt_generation_failed (DbError (AddPokemon p)))]
                  else [])"
      using f(1) start(1) by simp
    then have ev: "\<exists>pre rf post. events (snd (handleGeneratePokemon e s))
           = events s @ DbCall (UpdateTokenBalance (B - GENERATION_COST)) True # pre
               @ DbCall (UpdateTokenBalance B) rf # post
           \<and> rf = db_ok e (UpdateTokenBalance B)"
      by blast
    show ?thesis
      using ev f start(1) by (auto simp: f(1))
  qed
qed

theorem C1_rollback_of_failed_generation_witness:
  "tokenBalance (example_state 100 []) = 100
   \<and> db_tokenBalance (example_state 100 []) = Some 100
   \<and> GENERATION_COST \<le> 100
   \<and> db_handle (example_state 100 [])
   \<and> db_ok (example_env carry_out_all FetchAbortError 5000) (UpdateTokenBalance (100 - GENERATION_COST))
   \<and> fst (generatePokemon (remote (example_env carry_out_all FetchAbortError 5000)))
       = Inl Request_timed_out
   \<and> db_ok (example_env carry_out_all FetchAbortError 5000) (UpdateTokenBalance 100)
   \<and> db_tokenBalance (snd (handleGeneratePokemon (example_env carry_out_all FetchAbortError 5000)
                              (example_state 100 []))) = Some 100
   \<and> pokemons (snd (handleGeneratePokemon (example_env carry_out_all FetchAbortError 5000)
                       (example_state 100 []))) = []
   \<and> message (snd (handleGeneratePokemon (example_env carry_out_all FetchAbortError 5000)
                      (example_state 100 [])))
       = Some \<lparr> type_msg = Error,
                text_msg = Txt_generation_failed (ApiError Request_timed_out) \<rparr>"
  using C1_rollback_of_failed_generation
          [of "example_state 100 []" 100 "example_env carry_out_all FetchAbortError 5000"]
        C1_rollback_of_failed_generation
          [of "example_state 100 []" 100
              "example_env (refuse_only (UpdateTokenBalance 100)) FetchAbortError 5000"]
  by (simp add: example_defs model_defs)

theorem C1_compensation_rejected_counterexample:
  "tokenBalance (example_state 100 []) = 100
   \<and> db_tokenBalance (example_state 100 []) = Some 100
   \<and> fst (generatePokemon (remote (example_env (refuse_only (UpdateTokenBalance 100))
                                       FetchAbortError 5000)))
       = Inl Request_timed_out
   \<and> events (snd (handleGeneratePokemon
                     (example_env (refuse_only (UpdateTokenBalance 100)) FetchAbortError 5000)
                     (example_state 100 [])))
       = [DbCall (UpdateTokenBalance 90) True, ApiCall (Inl Request_timed_out),
          DbCall (UpdateTokenBalance 100) False]
   \<and> db_tokenBalance (snd (handleGeneratePokemon
                     (example_env (refuse_only (UpdateTokenBalance 100)) FetchAbortError 5000)
                     (example_state 100 []))) = Some 90
   \<and> db_tokenBalance (snd (handleGeneratePokemon
                     (example_env (refuse_only (UpdateTokenBalance 100)) FetchAbortError 5000)
                     (example_state 100 []))) \<noteq> Some 100
   \<and> message (snd (handleGeneratePokemon
                     (example_env (refuse_only (UpdateTokenBalance 100)) FetchAbortError 5000)
                     (example_state 100 []))) = None"
  by (simp add: example_defs model_defs)

text \<open>
  C2. For every sequence of generate, resell and buy intents, each run to its end in
  surroundings of its own (any outcome of the store and remote calls), started in a state
  whose balance, in memory and persisted, is not negative: after every intent of the
  sequence the balance in memory and the persisted balance are not negative. An intent
  whose effect would drive the balance negative (a generation with less than the cost, a
  purchase with less than the buy price) is rejected before persisting: its only event
  is the warning, and both balances are unchanged; a resale never lowers the balance.
\<close>

theorem C2_balance_never_negative:
  "(balance_ok s \<longrightarrow> (\<forall>n. balance_ok (dispatch_all (take n ops) s)))
   \<and> (tokenBalance s - GENERATION_COST < 0 \<longrightarrow>
        events (dispatch e Generate s)
          = events s @ [ShowMessage Warning (Txt_need_tokens GENERATION_COST)]
        \<and> tokenBalance (dispatch e Generate s) = tokenBalance s
        \<and> db_tokenBalance (dispatch e Generate s) = db_tokenBalance s)
   \<and> (tokenBalance s - getBuyPrice (rarity pokemon) < 0 \<longrightarrow>
        events (dispatch e (Buy pokemon) s)
          = events s @ [ShowMessage Warning (Txt_not_enough_tokens (getBuyPrice (rarity pokemon)))]
        \<and> tokenBalance (dispatch e (Buy pokemon) s) = tokenBalance s
        \<and> db_tokenBalance (dispatch e (Buy pokemon) s) = db_tokenBalance s)
   \<and> 0 \<le> getResellValue (rarity pokemon)"
proof -
  have inv: "balance_ok s \<longrightarrow> (\<forall>n. balance_ok (dispatch_all (take n ops) s))"
    by (simp add: dispatch_all_balance_ok)
  have gen: "tokenBalance s - GENERATION_COST < 0 \<longrightarrow>
        events (dispatch e Generate s)
          = events s @ [ShowMessage Warning (Txt_need_tokens GENERATION_COST)]
        \<and> tokenBalance (dispatch e Generate s) = tokenBalance s
        \<and> db_tokenBalance (dispatch e Generate s) = db_tokenBalance s"
    by (simp add: handleGeneratePokemon_def showMessage_sel)
  have buy: "tokenBalance s - getBuyPrice (rarity pokemon) < 0 \<longrightarrow>
        events (dispatch e (Buy pokemon) s)
          = events s @ [ShowMessage Warning (Txt_not_enough_tokens (getBuyPrice (rarity pokemon)))]
        \<and> tokenBalance (dispatch e (Buy pokemon) s) = tokenBalance s
        \<and> db_tokenBalance (dispatch e (Buy pokemon) s) = db_tokenBalance s"
    by (simp add: handleBuyPokemon_def Let_def showMessage_sel)
  from inv gen buy getResellValue_nonneg [of "rarity pokemon"] show ?thesis by blast
qed

theorem C2_balance_never_negative_witness:
  "balance_ok (example_state 100 [])
   \<and> balance_ok (dispatch_all (take 2 example_intents) (example_state 100 []))
   \<and> tokenBalance (dispatch_all (take 2 example_intents) (example_state 100 [])) = 130
   \<and> tokenBalance (example_state 5 []) - GENERATION_COST < 0
   \<and> tokenBalance (example_state 5 [])
        - getBuyPrice (rarity (example_pokemon ''p1'' LEGENDARY RESOLD)) < 0
   \<and> db_tokenBalance (dispatch (example_env carry_out_all FetchAbortError 0) Generate
                         (example_state 5 [])) = Some 5
   \<and> events (dispatch (example_env carry_out_all FetchAbortError 0)
                (Buy (example_pokemon ''p1'' LEGENDARY RESOLD)) (example_state 5 []))
       = [ShowMessage Warning (Txt_not_enough_tokens 80)]"
  using C2_balance_never_negative
          [of "example_state 100 []" example_intents
              "example_env carry_out_all FetchAbortError 0"
              "example_pokemon ''p1'' LEGENDARY RESOLD"]
        C2_balance_never_negative
          [of "example_state 5 []" example_intents
              "example_env carry_out_all FetchAbortError 0"
              "example_pokemon ''p1'' LEGENDARY RESOLD"]
  by (simp add: balance_ok_def example_defs model_defs)

text \<open>
  C3. In every generation attempt that passes the balance precondition, the first step
  is the write of the balance decremented by the generation cost, and the events of the
  run account for the persisted balance. The remote call is issued only once that write
  has resolved, as the very next step (so the persisted balance is then the decremented
  one), and at most once. The item write is issued only directly after the remote call
  has returned that item. The compensating write of the original balance is issued only
  directly after a step that was observed to fail, and no store or remote call follows it.
\<close>

theorem C3_generation_steps_in_sequence:
  assumes "GENERATION_COST \<le> tokenBalance s"
  shows "\<exists>debited rest.
      events (snd (handleGeneratePokemon e s))
        = events s @ DbCall (UpdateTokenBalance (tokenBalance s - GENERATION_COST)) debited # rest
      \<and> db_tokenBalance (snd (handleGeneratePokemon e s))
        = replay_balance
            (DbCall (UpdateTokenBalance (tokenBalance s - GENERATION_COST)) debited # rest)
            (db_tokenBalance s)
      \<and> (\<forall>r. ApiCall r \<in> set rest \<longrightarrow>
            debited
            \<and> replay_balance
                [DbCall (UpdateTokenBalance (tokenBalance s - GENERATION_COST)) debited]
                (db_tokenBalance s) = Some (tokenBalance s - GENERATION_COST)
            \<and> (\<exists>rest'. rest = ApiCall r # rest' \<and> (\<forall>r'. ApiCall r' \<notin> set rest')))
      \<and> (\<forall>p ok. DbCall (AddPokemon p) ok \<in> set rest \<longrightarrow>
            (\<exists>rest'. rest = ApiCall (Inr p) # DbCall (AddPokemon p) ok # rest'))
      \<and> (\<forall>ok. DbCall (UpdateTokenBalance (tokenBalance s)) ok \<in> set rest \<longrightarrow>
            (\<exists>pre x post.
               DbCall (UpdateTokenBalance (tokenBalance s - GENERATION_COST)) debited # rest
                 = pre @ x # DbCall (UpdateTokenBalance (tokenBalance s)) ok # post
               \<and> failed_step x
               \<and> (\<forall>ev \<in> set post. \<not> is_db_call ev \<and> \<not> is_api_call ev)))"
proof -
  let ?debit = "UpdateTokenBalance (tokenBalance s - GENERATION_COST)"
  from generate_shape [OF assms, of e] obtain debited rf msg rest where
    ev: "events (snd (handleGeneratePokemon e s)) = events s @ DbCall ?debit debited # rest"
    and db: "db_tokenBalance (snd (handleGeneratePokemon e s))
               = replay_balance (DbCall ?debit debited # rest) (db_tokenBalance s)"
    and msg: "\<forall>ev \<in> set msg. \<not> is_db_call ev \<and> \<not> is_api_call ev"
    and sh: "generation_shape (UpdateTokenBalance (tokenBalance s)) debited rf msg rest"
    by blast
  have ne: "tokenBalance s - GENERATION_COST \<noteq> tokenBalance s"
    by (simp add: GENERATION_COST_def)
  note api = shape_remote_call [OF sh msg]
  have api': "\<forall>r. ApiCall r \<in> set rest \<longrightarrow>
            debited
            \<and> replay_balance [DbCall ?debit debited] (db_tokenBalance s)
                = Some (tokenBalance s - GENERATION_COST)
            \<and> (\<exists>rest'. rest = ApiCall r # rest' \<and> (\<forall>r'. ApiCall r' \<notin> set rest'))"
  proof (intro allI impI)
    fix r assume "ApiCall r \<in> set rest"
    with api have d: "debited"
      and r: "\<exists>rest'. rest = ApiCall r # rest' \<and> (\<forall>r'. ApiCall r' \<notin> set rest')"
      by blast+
    from d have "replay_balance [DbCall ?debit debited] (db_tokenBalance s)
                   = Some (tokenBalance s - GENERATION_COST)"
      by simp
    with d r show "debited
            \<and> replay_balance [DbCall ?debit debited] (db_tokenBalance s)
                = Some (tokenBalance s - GENERATION_COST)
            \<and> (\<exists>rest'. rest = ApiCall r # rest' \<and> (\<forall>r'. ApiCall r' \<notin> set rest'))"
      by blast
  qed
  note item = shape_item_write [OF sh msg]
  note comp = shape_compensation [OF sh msg ne]
  from ev db api' item comp show ?thesis by blast
qed

theorem C3_generation_steps_in_sequence_witness:
  "GENERATION_COST \<le> tokenBalance (example_state 100 [])
   \<and> take 3 (events (snd (handleGeneratePokemon
                 (example_env carry_out_all (example_response ''p1'' ''A'') 5000)
                 (example_state 100 []))))
       = [DbCall (UpdateTokenBalance 90) True,
          ApiCall (Inr (example_pokemon ''p1'' LEGENDARY OWNED)),
          DbCall (AddPokemon (example_pokemon ''p1'' LEGENDARY OWNED)) True]
   \<and> events (snd (handleGeneratePokemon
                 (example_env carry_out_all FetchAbortError 5000) (example_state 100 [])))
       = [DbCall (UpdateTokenBalance 90) True, ApiCall (Inl Request_timed_out),
          DbCall (UpdateTokenBalance 100) True,
          ShowMessage Error (Txt_generation_failed (ApiError Request_timed_out))]"
  using C3_generation_steps_in_sequence
          [of "example_state 100 []" "example_env carry_out_all (example_response ''p1'' ''A'') 5000"]
        C3_generation_steps_in_sequence
          [of "example_state 100 []" "example_env carry_out_all FetchAbortError 5000"]
  by (simp add: example_defs model_defs)

text \<open>
  C4. A generation attempt with balance below the generation cost, and a purchase
  attempt with balance below the buy price, are rejected before any persistence call is
  made: the only event of the run is the warning shown; the attempt never starts
  (the handler's promise resolves, the generating flag, the item list and the three
  stores are as before), and the balance in memory and the persisted balance
  are unchanged.
\<close>

theorem C4_insufficient_balance_rejected:
  "(tokenBalance s < GENERATION_COST \<longrightarrow>
      fst (handleGeneratePokemon e s) = None
      \<and> events (snd (handleGeneratePokemon e s))
          = events s @ [ShowMessage Warning (Txt_need_tokens GENERATION_COST)]
      \<and> message (snd (handleGeneratePokemon e s))
          = Some \<lparr> type_msg = Warning, text_msg = Txt_need_tokens GENERATION_COST \<rparr>
      \<and> tokenBalance (snd (handleGeneratePokemon e s)) = tokenBalance s
      \<and> db_tokenBalance (snd (handleGeneratePokemon e s)) = db_tokenBalance s
      \<and> db_pokemons (snd (handleGeneratePokemon e s)) = db_pokemons s
      \<and> db_achievements (snd (handleGeneratePokemon e s)) = db_achievements s
      \<and> pokemons (snd (handleGeneratePokemon e s)) = pokemons s
      \<and> isGeneratingPokemon (snd (handleGeneratePokemon e s)) = isGeneratingPokemon s)
   \<and> (tokenBalance s < getBuyPrice (rarity pokemon) \<longrightarrow>
      events (handleBuyPokemon e pokemon s)
          = events s @ [ShowMessage Warning (Txt_not_enough_tokens (getBuyPrice (rarity pokemon)))]
      \<and> message (handleBuyPokemon e pokemon s)
          = Some \<lparr> type_msg = Warning,
                   text_msg = Txt_not_enough_tokens (getBuyPrice (rarity pokemon)) \<rparr>
      \<and> tokenBalance (handleBuyPokemon e pokemon s) = tokenBalance s
      \<and> db_tokenBalance (handleBuyPokemon e pokemon s) = db_tokenBalance s
      \<and> db_pokemons (handleBuyPokemon e pokemon s) = db_pokemons s
      \<and> db_achievements (handleBuyPokemon e pokemon s) = db_achievements s
      \<and> pokemons (handleBuyPokemon e pokemon s) = pokemons s)"
proof -
  have g: "tokenBalance s < GENERATION_COST \<Longrightarrow>
             handleGeneratePokemon e s
               = (None, showMessage Warning (Txt_need_tokens GENERATION_COST) s)"
    by (simp add: handleGeneratePokemon_def)
  have b: "tokenBalance s < getBuyPrice (rarity pokemon) \<Longrightarrow>
             handleBuyPokemon e pokemon s
               = showMessage Warning (Txt_not_enough_tokens (getBuyPrice (rarity pokemon))) s"
    by (simp add: handleBuyPokemon_def Let_def)
  show ?thesis
    by (simp add: g b showMessage_def)
qed

theorem C4_insufficient_balance_rejected_witness:
  "tokenBalance (example_state 5 []) < GENERATION_COST
   \<and> tokenBalance (example_state 5 []) < getBuyPrice (rarity (example_pokemon ''p1'' COMMON RESOLD))
   \<and> events (snd (handleGeneratePokemon (example_env (\<lambda>c. True) (example_response ''p2'' ''A'') 0)
                    (example_state 5 [])))
       = [ShowMessage Warning (Txt_need_tokens 10)]
   \<and> db_tokenBalance (handleBuyPokemon (example_env (\<lambda>c. True) (example_response ''p2'' ''A'') 0)
                         (example_pokemon ''p1'' COMMON RESOLD) (example_state 5 [])) = Some 5"
  using C4_insufficient_balance_rejected
          [of "example_state 5 []" "example_env (\<lambda>c. True) (example_response ''p2'' ''A'') 0"
              "example_pokemon ''p1'' COMMON RESOLD"]
  by (simp add: example_state_def example_pokemon_def GENERATION_COST_def getBuyPrice_def
        getResellValue_def)

text \<open>
  C5 does not hold of the code. The evaluation skips a definition when its entry in the
  controller's set is unlocked, but it awaits each write inside the loop and merges into
  the controller's set only after the loop, so an evaluation that throws on a later write
  leaves an earlier unlock persisted and not merged. Concretely: after a load over empty
  stores with balance 100, a generation at instant 5000 yields a Legendary item while the
  store refuses exactly the write of the Legendary-forge unlock. The first-forge unlock
  is then persisted with \<open>unlockedAt\<close> 5000, and the controller's entry for it is still
  locked. A second generation, at instant 9000 with a store that carries out every call,
  evaluates again: it writes the first-forge record a second time, and the persisted
  \<open>unlockedAt\<close> changes from 5000 to 9000.
\<close>

theorem C5_persisted_unlock_written_again:
  "find (\<lambda>x. id_ach x = ''FIRST_FORGE'') (db_achievements example_after_aborted_evaluation)
     = Some \<lparr> id_ach = ''FIRST_FORGE'', name_ach = ''Premiere Forge'',
              description = ''Generer votre premier Pokemon.'',
              unlocked = True, unlockedAt = Some 5000 \<rparr>
   \<and> find (\<lambda>x. id_ach x = ''FIRST_FORGE'') (achievements example_after_aborted_evaluation)
     = Some \<lparr> id_ach = ''FIRST_FORGE'', name_ach = ''Premiere Forge'',
              description = ''Generer votre premier Pokemon.'',
              unlocked = False, unlockedAt = None \<rparr>
   \<and> events (snd (handleGeneratePokemon example_second_env example_after_aborted_evaluation))
     = events example_after_aborted_evaluation
       @ [DbCall (UpdateTokenBalance 90) True,
          ApiCall (Inr (example_pokemon ''p2'' COMMON OWNED)),
          DbCall (AddPokemon (example_pokemon ''p2'' COMMON OWNED)) True,
          DbCall (UpdateAchievement
                    \<lparr> id_ach = ''FIRST_FORGE'', name_ach = ''Premiere Forge'',
                      description = ''Generer votre premier Pokemon.'',
                      unlocked = True, unlockedAt = Some 9000 \<rparr>) True,
          ShowMessage Success (Txt_achievement_unlocked ''Premiere Forge''),
          DbCall (UpdateAchievement
                    \<lparr> id_ach = ''LEGENDARY_FORGE'', name_ach = ''Main de Midas'',
                      description = ''Generer un Pokemon Legendaire ou Mythique.'',
                      unlocked = True, unlockedAt = Some 9000 \<rparr>) True,
          ShowMessage Success (Txt_achievement_unlocked ''Main de Midas''),
          ShowMessage Success (Txt_generated ''Forgemon'')]
   \<and> find (\<lambda>x. id_ach x = ''FIRST_FORGE'')
        (db_achievements (snd (handleGeneratePokemon example_second_env
                                 example_after_aborted_evaluation)))
     = Some \<lparr> id_ach = ''FIRST_FORGE'', name_ach = ''Premiere Forge'',
              description = ''Generer votre premier Pokemon.'',
              unlocked = True, unlockedAt = Some 9000 \<rparr>"
  by (simp add: scenario_defs example_defs model_defs)



text \<open>
  C7. The resale value of an item is Common=5, Rare=10, Epic=20, Legendary=40, Mythic=80
  tokens and the buy price is exactly twice the resale value of the same rarity; a
  confirmed resale whose two writes the store carries out persists the item with status
  Resold (the entry of its key in the item store is the item with that status) and
  persists the balance the controller holds incremented by exactly the resale value,
  the item write first. The handler does not look at the item's status, so this holds
  of an Owned item in particular.
\<close>

theorem C7_resale_values_and_resale:
  "getResellValue COMMON = 5 \<and> getResellValue RARE = 10 \<and> getResellValue EPIC = 20
   \<and> getResellValue LEGENDARY = 40 \<and> getResellValue MYTHIC = 80
   \<and> getBuyPrice r = 2 * getResellValue r
   \<and> ((db_handle s \<or> db_ok e OpenDatabase)
        \<and> db_ok e (UpdatePokemon (pokemon\<lparr>status := RESOLD\<rparr>))
        \<and> db_ok e (UpdateTokenBalance (tokenBalance s + getResellValue (rarity pokemon)))
      \<longrightarrow>
        find (\<lambda>q. id_pk q = id_pk pokemon)
          (db_pokemons (handleResellConfirmation_onConfirm e pokemon
                          (handleResellConfirmation pokemon s)))
          = Some (pokemon\<lparr>status := RESOLD\<rparr>)
        \<and> db_tokenBalance (handleResellConfirmation_onConfirm e pokemon
                              (handleResellConfirmation pokemon s))
          = Some (tokenBalance s + getResellValue (rarity pokemon))
        \<and> tokenBalance (handleResellConfirmation_onConfirm e pokemon
                           (handleResellConfirmation pokemon s))
          = tokenBalance s + getResellValue (rarity pokemon)
        \<and> (\<exists>rest. events (handleResellConfirmation_onConfirm e pokemon
                              (handleResellConfirmation pokemon s))
              = events s @ [DbCall (UpdatePokemon (pokemon\<lparr>status := RESOLD\<rparr>)) True,
                  DbCall (UpdateTokenBalance (tokenBalance s + getResellValue (rarity pokemon)))
                    True] @ rest))"
proof -
  have table: "getResellValue COMMON = 5 \<and> getResellValue RARE = 10 \<and> getResellValue EPIC = 20
      \<and> getResellValue LEGENDARY = 40 \<and> getResellValue MYTHIC = 80
      \<and> getBuyPrice r = 2 * getResellValue r"
    by (simp add: getResellValue_def getBuyPrice_def)
  have key: "find (\<lambda>q. id_pk q = id_pk pokemon)
               (put_by id_pk (pokemon\<lparr>status := RESOLD\<rparr>) (db_pokemons s))
             = Some (pokemon\<lparr>status := RESOLD\<rparr>)"
    by (rule find_put_by_id_pk) simp
  show ?thesis
    using table key resell_written [of s e pokemon] by simp
qed

theorem C7_resale_values_and_resale_witness:
  "db_handle (example_state 100 [example_pokemon ''p1'' LEGENDARY OWNED])
   \<and> db_ok (example_env (\<lambda>c. True) FetchAbortError 0)
        (UpdatePokemon ((example_pokemon ''p1'' LEGENDARY OWNED)\<lparr>status := RESOLD\<rparr>))
   \<and> db_ok (example_env (\<lambda>c. True) FetchAbortError 0) (UpdateTokenBalance 140)
   \<and> getBuyPrice LEGENDARY = 80
   \<and> find (\<lambda>q. id_pk q = ''p1'')
        (db_pokemons (handleResellConfirmation_onConfirm (example_env (\<lambda>c. True) FetchAbortError 0)
           (example_pokemon ''p1'' LEGENDARY OWNED)
           (handleResellConfirmation (example_pokemon ''p1'' LEGENDARY OWNED)
              (example_state 100 [example_pokemon ''p1'' LEGENDARY OWNED]))))
       = Some (example_pokemon ''p1'' LEGENDARY RESOLD)
   \<and> db_tokenBalance (handleResellConfirmation_onConfirm (example_env (\<lambda>c. True) FetchAbortError 0)
           (example_pokemon ''p1'' LEGENDARY OWNED)
           (handleResellConfirmation (example_pokemon ''p1'' LEGENDARY OWNED)
              (example_state 100 [example_pokemon ''p1'' LEGENDARY OWNED])))
       = Some 140"
  using C7_resale_values_and_resale
          [of LEGENDARY "example_state 100 [example_pokemon ''p1'' LEGENDARY OWNED]"
              "example_env (\<lambda>c. True) FetchAbortError 0"
              "example_pokemon ''p1'' LEGENDARY OWNED"]
  by (simp add: example_state_def example_env_def example_pokemon_def)

text \<open>
  C8 does not hold of the code. The claim, and the comment on the field in
  \<^verbatim>\<open>types.ts\<close> (\<^verbatim>\<open>ISO date string (YYYY-MM-DD)\<close>), have the last-claimed value be today's
  calendar date, not a timestamp; \<^verbatim>\<open>handleClaimDailyBonus\<close> persists
  \<^verbatim>\<open>new Date().toISOString()\<close>, the current instant. Concretely: with a bonus of 7 on
  offer at balance 100 and a store that carries out every call, a claim at instant 1000
  persists 1000 and a claim at instant 2000 persists 2000, two different values for two
  instants of the same calendar day.
\<close>

theorem C8_claim_persists_the_instant:
  "toDateString (example_env carry_out_all FetchAbortError 1000) 1000
     = toDateString (example_env carry_out_all FetchAbortError 1000) 2000
   \<and> events (snd (handleClaimDailyBonus (example_env carry_out_all FetchAbortError 1000)
                     example_bonus_state))
       = [DbCall (UpdateTokenBalance 107) True, DbCall (UpdateDailyBonusStatus 1000) True,
          ShowMessage Success (Txt_bonus_received 7)]
   \<and> db_dailyBonus (snd (handleClaimDailyBonus (example_env carry_out_all FetchAbortError 1000)
                            example_bonus_state)) = Some 1000
   \<and> db_dailyBonus (snd (handleClaimDailyBonus (example_env carry_out_all FetchAbortError 2000)
                            example_bonus_state)) = Some 2000
   \<and> db_dailyBonus (snd (handleClaimDailyBonus (example_env carry_out_all FetchAbortError 1000)
                            example_bonus_state))
       \<noteq> db_dailyBonus (snd (handleClaimDailyBonus (example_env carry_out_all FetchAbortError 2000)
                            example_bonus_state))"
  by (simp add: load_defs example_defs model_defs)

text \<open>
  C9. The remote rarity code is mapped exactly as: F and E to Common, D and C to Rare,
  B to Epic, A and S to Legendary, S+ to Mythic, and every other code to Common with a
  warning written to the console (the listed codes write none); and whatever the remote
  endpoint answers, an item returned by a successful \<^verbatim>\<open>generatePokemon\<close> call has status
  Owned and favorite false.
\<close>

theorem C9_rarity_mapping_and_new_item:
  "fst (mapApiRarityToEnum ''F'') = COMMON \<and> fst (mapApiRarityToEnum ''E'') = COMMON
   \<and> fst (mapApiRarityToEnum ''D'') = RARE \<and> fst (mapApiRarityToEnum ''C'') = RARE
   \<and> fst (mapApiRarityToEnum ''B'') = EPIC
   \<and> fst (mapApiRarityToEnum ''A'') = LEGENDARY \<and> fst (mapApiRarityToEnum ''S'') = LEGENDARY
   \<and> fst (mapApiRarityToEnum ''S+'') = MYTHIC
   \<and> (\<forall>c. c \<in> set [''F'', ''E'', ''D'', ''C'', ''B'', ''A'', ''S'', ''S+'']
          \<longrightarrow> snd (mapApiRarityToEnum c) = [])
   \<and> (\<forall>c. c \<notin> set [''F'', ''E'', ''D'', ''C'', ''B'', ''A'', ''S'', ''S+'']
          \<longrightarrow> mapApiRarityToEnum c = (COMMON, [Warn_unknown_rarity c]))
   \<and> (\<forall>f p. fst (generatePokemon f) = Inr p \<longrightarrow> status p = OWNED \<and> isFavorite p = False)"
proof -
  have listed: "fst (mapApiRarityToEnum ''F'') = COMMON \<and> fst (mapApiRarityToEnum ''E'') = COMMON
   \<and> fst (mapApiRarityToEnum ''D'') = RARE \<and> fst (mapApiRarityToEnum ''C'') = RARE
   \<and> fst (mapApiRarityToEnum ''B'') = EPIC
   \<and> fst (mapApiRarityToEnum ''A'') = LEGENDARY \<and> fst (mapApiRarityToEnum ''S'') = LEGENDARY
   \<and> fst (mapApiRarityToEnum ''S+'') = MYTHIC"
    by (simp add: mapApiRarityToEnum_def)
  have quiet: "\<forall>c. c \<in> set [''F'', ''E'', ''D'', ''C'', ''B'', ''A'', ''S'', ''S+'']
          \<longrightarrow> snd (mapApiRarityToEnum c) = []"
    by (simp add: mapApiRarityToEnum_def)
  have other: "\<forall>c. c \<notin> set [''F'', ''E'', ''D'', ''C'', ''B'', ''A'', ''S'', ''S+'']
          \<longrightarrow> mapApiRarityToEnum c = (COMMON, [Warn_unknown_rarity c])"
    by (simp add: mapApiRarityToEnum_def)
  have item: "\<forall>f p. fst (generatePokemon f) = Inr p \<longrightarrow> status p = OWNED \<and> isFavorite p = False"
    by (auto simp: generatePokemon_def Let_def
             split: fetch_outcome.splits json_result.splits option.splits if_splits)
  from listed quiet other item show ?thesis by blast
qed

theorem C9_rarity_mapping_and_new_item_witness:
  "''S+'' \<in> set [''F'', ''E'', ''D'', ''C'', ''B'', ''A'', ''S'', ''S+'']
   \<and> snd (mapApiRarityToEnum ''S+'') = []
   \<and> ''Z'' \<notin> set [''F'', ''E'', ''D'', ''C'', ''B'', ''A'', ''S'', ''S+'']
   \<and> mapApiRarityToEnum ''Z'' = (COMMON, [Warn_unknown_rarity ''Z''])
   \<and> fst (generatePokemon (example_response ''p1'' ''S+''))
       = Inr (example_pokemon ''p1'' MYTHIC OWNED)
   \<and> status (example_pokemon ''p1'' MYTHIC OWNED) = OWNED
   \<and> isFavorite (example_pokemon ''p1'' MYTHIC OWNED) = False"
  using C9_rarity_mapping_and_new_item
  by (simp add: generatePokemon_def example_response_def example_pokemon_def falsy_def
        mapApiRarityToEnum_def)

text \<open>
  C10. Unlike generation, resale and purchase have no rollback. In every run of either
  protocol (a purchase that passes its balance guard) the first store call is the
  item-status write, so the balance write comes after it. When the store carries out
  the item-status write and refuses the balance write, the run ends with the error
  message as its only further event: no write restores the previous status, the item
  store holds the item with its new status, and the balance, persisted and in memory,
  is unchanged (the item list in memory is unchanged as well).
\<close>

theorem C10_no_rollback_for_resale_and_purchase:
  "(\<exists>ok rest.
      events (handleResellConfirmation_onConfirm e pokemon (handleResellConfirmation pokemon s))
        = events s @ DbCall (UpdatePokemon (pokemon\<lparr>status := RESOLD\<rparr>)) ok # rest)
   \<and> (getBuyPrice (rarity pokemon) \<le> tokenBalance s \<longrightarrow>
        (\<exists>ok rest.
           events (handleBuyPokemon e pokemon s)
             = events s @ DbCall (UpdatePokemon (pokemon\<lparr>status := OWNED\<rparr>)) ok # rest))
   \<and> ((db_handle s \<or> db_ok e OpenDatabase)
        \<and> db_ok e (UpdatePokemon (pokemon\<lparr>status := RESOLD\<rparr>))
        \<and> \<not> db_ok e (UpdateTokenBalance (tokenBalance s + getResellValue (rarity pokemon)))
      \<longrightarrow>
        events (handleResellConfirmation_onConfirm e pokemon (handleResellConfirmation pokemon s))
          = events s @ [DbCall (UpdatePokemon (pokemon\<lparr>status := RESOLD\<rparr>)) True,
              DbCall (UpdateTokenBalance (tokenBalance s + getResellValue (rarity pokemon))) False,
              ShowMessage Error Txt_resell_failed]
        \<and> find (\<lambda>q. id_pk q = id_pk pokemon)
            (db_pokemons (handleResellConfirmation_onConfirm e pokemon
                            (handleResellConfirmation pokemon s)))
            = Some (pokemon\<lparr>status := RESOLD\<rparr>)
        \<and> db_tokenBalance (handleResellConfirmation_onConfirm e pokemon
                              (handleResellConfirmation pokemon s)) = db_tokenBalance s
        \<and> tokenBalance (handleResellConfirmation_onConfirm e pokemon
                           (handleResellConfirmation pokemon s)) = tokenBalance s
        \<and> pokemons (handleResellConfirmation_onConfirm e pokemon
                       (handleResellConfirmation pokemon s)) = pokemons s)
   \<and> (getBuyPrice (rarity pokemon) \<le> tokenBalance s
        \<and> (db_handle s \<or> db_ok e OpenDatabase)
        \<and> db_ok e (UpdatePokemon (pokemon\<lparr>status := OWNED\<rparr>))
        \<and> \<not> db_ok e (UpdateTokenBalance (tokenBalance s - getBuyPrice (rarity pokemon)))
      \<longrightarrow>
        events (handleBuyPokemon e pokemon s)
          = events s @ [DbCall (UpdatePokemon (pokemon\<lparr>status := OWNED\<rparr>)) True,
              DbCall (UpdateTokenBalance (tokenBalance s - getBuyPrice (rarity pokemon))) False,
              ShowMessage Error Txt_buy_failed]
        \<and> find (\<lambda>q. id_pk q = id_pk pokemon) (db_pokemons (handleBuyPokemon e pokemon s))
            = Some (pokemon\<lparr>status := OWNED\<rparr>)
        \<and> db_tokenBalance (handleBuyPokemon e pokemon s) = db_tokenBalance s
        \<and> tokenBalance (handleBuyPokemon e pokemon s) = tokenBalance s
        \<and> pokemons (handleBuyPokemon e pokemon s) = pokemons s)"
proof -
  have keyR: "find (\<lambda>q. id_pk q = id_pk pokemon)
               (put_by id_pk (pokemon\<lparr>status := RESOLD\<rparr>) (db_pokemons s))
             = Some (pokemon\<lparr>status := RESOLD\<rparr>)"
    by (rule find_put_by_id_pk) simp
  have keyB: "find (\<lambda>q. id_pk q = id_pk pokemon)
               (put_by id_pk (pokemon\<lparr>status := OWNED\<rparr>) (db_pokemons s))
             = Some (pokemon\<lparr>status := OWNED\<rparr>)"
    by (rule find_put_by_id_pk) simp
  show ?thesis
    using resell_events_start [of e pokemon s] buy_events_start [of pokemon s e]
      resell_balance_rejected [of s e pokemon] buy_balance_rejected [of pokemon s e] keyR keyB
    by simp
qed

theorem C10_no_rollback_for_resale_and_purchase_witness:
  "getBuyPrice (rarity (example_pokemon ''p1'' RARE OWNED))
     \<le> tokenBalance (example_state 100 [example_pokemon ''p1'' RARE OWNED])
   \<and> db_handle (example_state 100 [example_pokemon ''p1'' RARE OWNED])
   \<and> db_ok (example_env refuse_balance_writes FetchAbortError 0)
        (UpdatePokemon ((example_pokemon ''p1'' RARE OWNED)\<lparr>status := RESOLD\<rparr>))
   \<and> \<not> db_ok (example_env refuse_balance_writes FetchAbortError 0) (UpdateTokenBalance 110)
   \<and> db_ok (example_env refuse_balance_writes FetchAbortError 0)
        (UpdatePokemon ((example_pokemon ''p1'' RARE OWNED)\<lparr>status := OWNED\<rparr>))
   \<and> \<not> db_ok (example_env refuse_balance_writes FetchAbortError 0) (UpdateTokenBalance 80)
   \<and> find (\<lambda>q. id_pk q = ''p1'')
        (db_pokemons (handleResellConfirmation_onConfirm
           (example_env refuse_balance_writes FetchAbortError 0)
           (example_pokemon ''p1'' RARE OWNED)
           (handleResellConfirmation (example_pokemon ''p1'' RARE OWNED)
              (example_state 100 [example_pokemon ''p1'' RARE OWNED]))))
       = Some (example_pokemon ''p1'' RARE RESOLD)
   \<and> db_tokenBalance (handleResellConfirmation_onConfirm
           (example_env refuse_balance_writes FetchAbortError 0)
           (example_pokemon ''p1'' RARE OWNED)
           (handleResellConfirmation (example_pokemon ''p1'' RARE OWNED)
              (example_state 100 [example_pokemon ''p1'' RARE OWNED])))
       = Some 100
   \<and> events (handleBuyPokemon (example_env refuse_balance_writes FetchAbortError 0)
           (example_pokemon ''p1'' RARE OWNED)
           (example_state 100 [example_pokemon ''p1'' RARE OWNED]))
       = [DbCall (UpdatePokemon (example_pokemon ''p1'' RARE OWNED)) True,
          DbCall (UpdateTokenBalance 80) False, ShowMessage Error Txt_buy_failed]"
  using C10_no_rollback_for_resale_and_purchase
          [of "example_env refuse_balance_writes FetchAbortError 0"
              "example_pokemon ''p1'' RARE OWNED"
              "example_state 100 [example_pokemon ''p1'' RARE OWNED]"]
  by (simp add: example_state_def example_env_def example_pokemon_def refuse_balance_writes_def
        getBuyPrice_def getResellValue_def)


end
